theory Spec2Isabelle
  imports Main "HOL-Library.Sublist" "HOL-Library.AList" "HOL-Library.List_Lexorder"
begin

section \<open>Python values and errors\<close>

text \<open>
  The model follows \<^verbatim>\<open>src/library/yunohost_app/app.py\<close>. Python exceptions are values
  of type \<open>error\<close>; a function that can raise returns \<open>error + 'a\<close> with \<open>Inl\<close> for the
  exception. Strings are ASCII character lists.
\<close>

datatype error =
    AssertionError
  | PyException
  | KeyError string
  | ValueError
  | AttributeError
  | TypeError
  | UnboundLocalError
  | FileNotFoundError
  | YunohostError string
  | YunohostValidationError string

text \<open>
  Values of the YAML, JSON and TOML documents the module reads and writes (settings,
  manifests): Python's \<^verbatim>\<open>None\<close>, booleans, integers, strings, lists and dictionaries. A
  dictionary is an association list in insertion order, looked up with \<open>map_of\<close>,
  assigned with \<open>AList.update\<close> and deleted from with \<open>AList.delete\<close>.
\<close>

datatype yval =
    YNull
  | YBool bool
  | YInt int
  | YStr string
  | YList "yval list"
  | YDict "(string \<times> yval) list"

type_synonym pydict = "(string \<times> yval) list"

section \<open>Instance identity\<close>

subsection \<open>The pattern \<^verbatim>\<open>re_app_instance_name\<close>\<close>

text \<open>
  \<^verbatim>\<open>re_app_instance_name = re.compile(r"^(?P<appid>[\w-]+?)(__(?P<appinstancenb>[1-9][0-9]*))?$")\<close>

  Character classes are read on ASCII: \<^verbatim>\<open>\w\<close> is a letter, a digit or the underscore. The
  anchor \<^verbatim>\<open>$\<close> of Python matches at the end of the string and also just before one final
  newline.
\<close>

definition is_digit :: "char \<Rightarrow> bool" where
  "is_digit c \<longleftrightarrow> 48 \<le> (of_char c :: nat) \<and> (of_char c :: nat) \<le> 57"

definition is_nonzero_digit :: "char \<Rightarrow> bool" where
  "is_nonzero_digit c \<longleftrightarrow> 49 \<le> (of_char c :: nat) \<and> (of_char c :: nat) \<le> 57"

definition is_word_char :: "char \<Rightarrow> bool" where
  "is_word_char c \<longleftrightarrow>
     is_digit c
     \<or> (65 \<le> (of_char c :: nat) \<and> (of_char c :: nat) \<le> 90)
     \<or> (97 \<le> (of_char c :: nat) \<and> (of_char c :: nat) \<le> 122)
     \<or> c = CHR ''_''"

definition is_appid_char :: "char \<Rightarrow> bool" where
  "is_appid_char c \<longleftrightarrow> is_word_char c \<or> c = CHR ''-''"

definition at_end :: "string \<Rightarrow> bool" where
  "at_end s \<longleftrightarrow> s = [] \<or> s = [CHR 0x0A]"

text \<open>
  The optional group, taken: two underscores, a digit from 1 to 9, then digits. The
  greedy run of digits must reach the anchor: giving back a digit leaves a digit in
  front of \<^verbatim>\<open>$\<close>, which never matches, so only the whole run is tried.
\<close>

fun instance_suffix :: "string \<Rightarrow> string option" where
  "instance_suffix (a # b # d # ds) =
     (if a = CHR ''_'' \<and> b = CHR ''_'' \<and> is_nonzero_digit d \<and> at_end (dropWhile is_digit ds)
      then Some (d # takeWhile is_digit ds) else None)"
| "instance_suffix _ = None"

text \<open>
  What follows the app id: the group if it matches (it is greedy), else nothing before
  the anchor. The result tells whether the group \<^verbatim>\<open>appinstancenb\<close> took part.
\<close>

definition match_tail :: "string \<Rightarrow> string option option" where
  "match_tail s =
     (case instance_suffix s of
        Some ds \<Rightarrow> Some (Some ds)
      | None \<Rightarrow> if at_end s then Some None else None)"

text \<open>
  The lazy group \<^verbatim>\<open>[\w-]+?\<close>: take one more character of the class only when the rest of
  the pattern fails on what is left. \<open>acc\<close> is the app id read so far.
\<close>

fun match_appid :: "string \<Rightarrow> string \<Rightarrow> (string \<times> string option) option" where
  "match_appid acc [] = None"
| "match_appid acc (c # cs) =
     (if is_appid_char c
      then (case match_tail cs of
              Some g \<Rightarrow> Some (acc @ [c], g)
            | None \<Rightarrow> match_appid (acc @ [c]) cs)
      else None)"

definition re_app_instance_name :: "string \<Rightarrow> (string \<times> string option) option" where
  "re_app_instance_name s = match_appid [] s"

subsection \<open>Decimal numerals: \<^verbatim>\<open>int\<close>, \<^verbatim>\<open>str\<close>, \<^verbatim>\<open>isdigit\<close>\<close>

definition digit_val :: "char \<Rightarrow> nat" where
  "digit_val c = of_char c - 48"

definition py_int :: "string \<Rightarrow> nat" where
  "py_int ds = foldl (\<lambda>a c. 10 * a + digit_val c) 0 ds"

definition py_isdigit :: "string \<Rightarrow> bool" where
  "py_isdigit s \<longleftrightarrow> s \<noteq> [] \<and> (\<forall>c \<in> set s. is_digit c)"

definition digit_char :: "nat \<Rightarrow> char" where
  "digit_char d = char_of (48 + d)"

fun py_str :: "nat \<Rightarrow> string" where
  "py_str n = (if n < 10 then [digit_char n] else py_str (n div 10) @ [digit_char (n mod 10)])"

declare py_str.simps [simp del]

subsection \<open>\<^verbatim>\<open>_parse_app_instance_name\<close>\<close>

text \<open>
  \<^verbatim>\<open>
  match = re_app_instance_name.match(app_instance_name)
  assert match, f"Could not parse app instance name : {app_instance_name}"
  appid = match.groupdict().get("appid")
  app_instance_nb_ = match.groupdict().get("appinstancenb") or "1"
  if not appid:
      raise Exception(...)
  if not str(app_instance_nb_).isdigit():
      raise Exception(...)
  else:
      app_instance_nb = int(str(app_instance_nb_))
  return (appid, app_instance_nb)
  \<close>
\<close>

definition parse_app_instance_name :: "string \<Rightarrow> error + (string \<times> nat)" where
  "parse_app_instance_name app_instance_name =
     (case re_app_instance_name app_instance_name of
        None \<Rightarrow> Inl AssertionError
      | Some (appid, nb) \<Rightarrow>
          (let app_instance_nb =
                 (case nb of Some ds \<Rightarrow> (if ds = [] then ''1'' else ds) | None \<Rightarrow> ''1'')
           in if appid = [] then Inl PyException
              else if \<not> py_isdigit app_instance_nb then Inl PyException
              else Inr (appid, py_int app_instance_nb)))"

text \<open>
  The id check of \<^verbatim>\<open>app_install\<close> refuses a manifest id with \<^verbatim>\<open>"__" in manifest["id"]\<close>.
\<close>

fun contains_dunder :: "string \<Rightarrow> bool" where
  "contains_dunder (a # b # cs) = ((a = CHR ''_'' \<and> b = CHR ''_'') \<or> contains_dunder (b # cs))"
| "contains_dunder _ = False"

text \<open>
  The instance name \<^verbatim>\<open>app_install\<close> builds from the manifest id and the instance number:
  \<^verbatim>\<open>
  if instance_number > 1:
      ...
      app_instance_name = app_id + "__" + str(instance_number)
  else:
      app_instance_name = app_id
  \<close>
\<close>

definition app_instance_name_of :: "string \<Rightarrow> nat \<Rightarrow> string" where
  "app_instance_name_of app_id instance_number =
     (if instance_number > 1 then app_id @ ''__'' @ py_str instance_number else app_id)"

subsection \<open>\<^verbatim>\<open>_next_instance_number_for_app\<close>\<close>

text \<open>
  \<^verbatim>\<open>
  apps = _installed_apps()
  sibling_app_ids = [a for a in apps if a == app or a.startswith(f"{app}__")]
  sibling_ids = [_parse_app_instance_name(a)[1] for a in sibling_app_ids]
  i = 1
  while True:
      if i not in sibling_ids:
          return i
      else:
          i += 1
  \<close>
  \<open>apps\<close> is the directory listing \<^verbatim>\<open>_installed_apps()\<close> returns.
\<close>

definition sibling_app_ids :: "string list \<Rightarrow> string \<Rightarrow> string list" where
  "sibling_app_ids apps app = filter (\<lambda>a. a = app \<or> prefix (app @ ''__'') a) apps"

fun parse_instance_numbers :: "string list \<Rightarrow> error + nat list" where
  "parse_instance_numbers [] = Inr []"
| "parse_instance_numbers (a # as) =
     (case parse_app_instance_name a of
        Inl e \<Rightarrow> Inl e
      | Inr (appid, nb) \<Rightarrow>
          (case parse_instance_numbers as of
             Inl e \<Rightarrow> Inl e
           | Inr nbs \<Rightarrow> Inr (nb # nbs)))"

text \<open>The loop ends: a number in the list is at most the greatest number of the list.\<close>

function first_free :: "nat list \<Rightarrow> nat \<Rightarrow> nat" where
  "first_free sibling_ids i =
     (if i \<notin> set sibling_ids then i else first_free sibling_ids (i + 1))"
  by pat_completeness auto
termination
proof (relation "measure (\<lambda>(sibling_ids, i). Suc (Max (set sibling_ids)) - i)")
  show "wf (measure (\<lambda>(sibling_ids, i). Suc (Max (set sibling_ids)) - i))" by simp
next
  fix sibling_ids :: "nat list" and i :: nat
  assume "\<not> i \<notin> set sibling_ids"
  then have "i \<le> Max (set sibling_ids)" by simp
  then show "((sibling_ids, i + 1), (sibling_ids, i))
      \<in> measure (\<lambda>(sibling_ids, i). Suc (Max (set sibling_ids)) - i)"
    by simp
qed

declare first_free.simps [simp del]

definition next_instance_number_for_app :: "string list \<Rightarrow> string \<Rightarrow> error + nat" where
  "next_instance_number_for_app apps app =
     (case parse_instance_numbers (sibling_app_ids apps app) of
        Inl e \<Rightarrow> Inl e
      | Inr sibling_ids \<Rightarrow> Inr (first_free sibling_ids 1))"

text \<open>
  The instance numbers held by the installed instances of one base id: the ids of the
  listing that \<open>parse_app_instance_name\<close> maps to that base id.
\<close>

definition instance_numbers_of :: "string list \<Rightarrow> string \<Rightarrow> nat list" where
  "instance_numbers_of apps app =
     concat (map (\<lambda>a. case parse_app_instance_name a of
                        Inr (appid, nb) \<Rightarrow> if appid = app then [nb] else []
                      | Inl e \<Rightarrow> []) apps)"

section \<open>Web path conflicts\<close>

text \<open>
  \<^verbatim>\<open>app_map(raw=True)\<close> gives, for each domain, a dictionary from path to
  \<^verbatim>\<open>{"label": ..., "id": ...}\<close>.
\<close>

record app_ref =
  ref_id :: string
  ref_label :: string

type_synonym apps_map = "(string \<times> (string \<times> app_ref) list) list"

text \<open>
  The loop of \<^verbatim>\<open>_get_conflicting_apps\<close> over \<^verbatim>\<open>apps_map[domain].items()\<close>:
  \<^verbatim>\<open>
  for p, a in apps_map[domain].items():
      if a["id"] == ignore_app:
          continue
      if path == p:
          conflicts.append((p, a["id"], a["label"]))
      elif path.startswith(p) or p.startswith(path):
          conflicts.append((p, a["id"], a["label"]))
  \<close>
\<close>

fun conflicts_loop ::
  "string \<Rightarrow> string option \<Rightarrow> (string \<times> app_ref) list \<Rightarrow> (string \<times> string \<times> string) list"
where
  "conflicts_loop path ignore_app [] = []"
| "conflicts_loop path ignore_app ((p, a) # rest) =
     (if Some (ref_id a) = ignore_app then conflicts_loop path ignore_app rest
      else if path = p then (p, ref_id a, ref_label a) # conflicts_loop path ignore_app rest
      else if prefix p path \<or> prefix path p
        then (p, ref_id a, ref_label a) # conflicts_loop path ignore_app rest
      else conflicts_loop path ignore_app rest)"

text \<open>
  \<^verbatim>\<open>_get_conflicting_apps(domain, path, ignore_app=None)\<close>. The two normalisers
  (\<^verbatim>\<open>DomainQuestion.normalize\<close>, \<^verbatim>\<open>PathQuestion.normalize\<close>) and the list of known domains
  behind \<^verbatim>\<open>_assert_domain_exists\<close> belong to other modules and are parameters, as is the
  map \<^verbatim>\<open>app_map(raw=True)\<close> returns.
\<close>

definition get_conflicting_apps ::
  "(string \<Rightarrow> string) \<Rightarrow> (string \<Rightarrow> string) \<Rightarrow> string list \<Rightarrow> apps_map
     \<Rightarrow> string \<Rightarrow> string \<Rightarrow> string option \<Rightarrow> error + (string \<times> string \<times> string) list"
where
  "get_conflicting_apps normalize_domain normalize_path known_domains apps_map
       domain0 path0 ignore_app =
     (let domain = normalize_domain domain0;
          path = normalize_path path0
      in if domain \<notin> set known_domains
         then Inl (YunohostValidationError ''domain_name_unknown'')
         else (case map_of apps_map domain of
                 None \<Rightarrow> Inr []
               | Some entries \<Rightarrow> Inr (conflicts_loop path ignore_app entries)))"

text \<open>
  \<^verbatim>\<open>_assert_no_conflicting_apps\<close>: raises when the list of conflicts is not empty.
\<close>

definition assert_no_conflicting_apps ::
  "(string \<Rightarrow> string) \<Rightarrow> (string \<Rightarrow> string) \<Rightarrow> string list \<Rightarrow> apps_map
     \<Rightarrow> string \<Rightarrow> string \<Rightarrow> string option \<Rightarrow> bool \<Rightarrow> error option"
where
  "assert_no_conflicting_apps normalize_domain normalize_path known_domains apps_map
       domain path ignore_app full_domain =
     (case get_conflicting_apps normalize_domain normalize_path known_domains apps_map
             domain path ignore_app of
        Inl e \<Rightarrow> Some e
      | Inr conflicts \<Rightarrow>
          if conflicts \<noteq> []
          then (if full_domain then Some (YunohostValidationError ''app_full_domain_unavailable'')
                else Some (YunohostValidationError ''app_location_unavailable''))
          else None)"

text \<open>
  Python's \<^verbatim>\<open>s.strip("/")\<close>, and the normal form of a path that \<^verbatim>\<open>_get_app_settings\<close>
  writes: \<^verbatim>\<open>"/" + settings["path"].strip("/")\<close>.
\<close>

definition strip_slashes :: "string \<Rightarrow> string" where
  "strip_slashes s =
     rev (dropWhile (\<lambda>c. c = CHR ''/'') (rev (dropWhile (\<lambda>c. c = CHR ''/'') s)))"

definition slash_normal_form :: "string \<Rightarrow> string" where
  "slash_normal_form p = ''/'' @ strip_slashes p"

section \<open>Manifest questions\<close>

text \<open>
  \<^verbatim>\<open>_set_default_ask_questions(arguments)\<close>. \<open>arguments\<close> maps a script name to the list of
  its questions, each a dictionary. \<^verbatim>\<open>m18n.n\<close> (the translation of a message key) is a
  parameter.
  \<^verbatim>\<open>
  questions_with_default = [
      ("domain", "domain"), ("path", "path"), ("password", "password"),
      ("user", "admin"), ("boolean", "is_public"),
  ]
  for script_name, arg_list in arguments.items():
      if script_name != "install":
          continue
      for arg in arg_list:
          if any((arg.get("type"), arg["name"]) == question
                 for question in questions_with_default):
              key = "app_manifest_%s_ask_%s" % (script_name, arg["name"])
              arg["ask"] = m18n.n(key)
          if arg.get("type") in ["domain", "user", "password"]:
              if "example" in arg:
                  del arg["example"]
              if "default" in arg:
                  del arg["domain"]
  return arguments
  \<close>
\<close>

definition questions_with_default :: "(string \<times> string) list" where
  "questions_with_default =
     [(''domain'', ''domain''), (''path'', ''path''), (''password'', ''password''),
      (''user'', ''admin''), (''boolean'', ''is_public'')]"

text \<open>\<^verbatim>\<open>del d[k]\<close>: raises \<^verbatim>\<open>KeyError\<close> when the key is absent.\<close>

definition py_del :: "string \<Rightarrow> pydict \<Rightarrow> error + pydict" where
  "py_del k d = (if map_of d k = None then Inl (KeyError k) else Inr (AList.delete k d))"

text \<open>
  The body of the inner loop, for one question \<open>arg\<close> of the script \<open>script_name\<close>, in its
  two steps. First the default prompt; \<open>name\<close> is \<^verbatim>\<open>arg["name"]\<close>.
\<close>

definition fill_default_ask :: "(string \<Rightarrow> string) \<Rightarrow> string \<Rightarrow> yval \<Rightarrow> pydict \<Rightarrow> pydict" where
  "fill_default_ask m18n script_name name arg =
     (if \<exists>question \<in> set questions_with_default.
            (map_of arg ''type'', name) = (Some (YStr (fst question)), YStr (snd question))
      then AList.update ''ask''
             (YStr (m18n (''app_manifest_'' @ script_name @ ''_ask_''
                            @ (case name of YStr n \<Rightarrow> n | _ \<Rightarrow> []))))
             arg
      else arg)"

text \<open>Then the removal of the example and of the default.\<close>

definition strip_example_and_default :: "pydict \<Rightarrow> error + pydict" where
  "strip_example_and_default arg =
     (if map_of arg ''type'' \<in> Some ` YStr ` {''domain'', ''user'', ''password''}
      then (let arg' = (if map_of arg ''example'' \<noteq> None
                        then AList.delete ''example'' arg else arg)
            in if map_of arg' ''default'' \<noteq> None
               then py_del ''domain'' arg'
               else Inr arg')
      else Inr arg)"

definition set_default_ask_question ::
  "(string \<Rightarrow> string) \<Rightarrow> string \<Rightarrow> pydict \<Rightarrow> error + pydict"
where
  "set_default_ask_question m18n script_name arg =
     (case map_of arg ''name'' of
        None \<Rightarrow> Inl (KeyError ''name'')
      | Some name \<Rightarrow> strip_example_and_default (fill_default_ask m18n script_name name arg))"

fun set_default_ask_arg_list ::
  "(string \<Rightarrow> string) \<Rightarrow> string \<Rightarrow> pydict list \<Rightarrow> error + pydict list"
where
  "set_default_ask_arg_list m18n script_name [] = Inr []"
| "set_default_ask_arg_list m18n script_name (arg # arg_list) =
     (case set_default_ask_question m18n script_name arg of
        Inl e \<Rightarrow> Inl e
      | Inr arg' \<Rightarrow>
          (case set_default_ask_arg_list m18n script_name arg_list of
             Inl e \<Rightarrow> Inl e
           | Inr arg_list' \<Rightarrow> Inr (arg' # arg_list')))"

fun set_default_ask_questions ::
  "(string \<Rightarrow> string) \<Rightarrow> (string \<times> pydict list) list \<Rightarrow> error + (string \<times> pydict list) list"
where
  "set_default_ask_questions m18n [] = Inr []"
| "set_default_ask_questions m18n ((script_name, arg_list) # arguments) =
     (if script_name \<noteq> ''install''
      then (case set_default_ask_questions m18n arguments of
              Inl e \<Rightarrow> Inl e
            | Inr arguments' \<Rightarrow> Inr ((script_name, arg_list) # arguments'))
      else (case set_default_ask_arg_list m18n script_name arg_list of
              Inl e \<Rightarrow> Inl e
            | Inr arg_list' \<Rightarrow>
                (case set_default_ask_questions m18n arguments of
                   Inl e \<Rightarrow> Inl e
                 | Inr arguments' \<Rightarrow> Inr ((script_name, arg_list') # arguments'))))"

section \<open>Version classification\<close>

text \<open>
  The marker test \<^verbatim>\<open>"~ynh" in str(version)\<close> and \<^verbatim>\<open>str(version).split("~ynh")\<close>. A string that
  contains \<^verbatim>\<open>~\<close> is no PEP 440 version, so \<^verbatim>\<open>str\<close> of the parsed version is the string as
  it was given.
\<close>

fun contains_ynh :: "string \<Rightarrow> bool" where
  "contains_ynh (a # b # c # d # rest) =
     ([a, b, c, d] = ''~ynh'' \<or> contains_ynh (b # c # d # rest))"
| "contains_ynh _ = False"

fun split_ynh :: "string \<Rightarrow> string \<Rightarrow> string list" where
  "split_ynh cur (a # b # c # d # rest) =
     (if [a, b, c, d] = ''~ynh'' then cur # split_ynh [] rest
      else split_ynh (cur @ [a]) (b # c # d # rest))"
| "split_ynh cur rest = [cur @ rest]"

text \<open>
  Modelled from the spec: \<^verbatim>\<open>version.parse\<close> and the order of the versions it returns belong
  to the library \<^verbatim>\<open>packaging\<close>, which is not part of the repository. The spec says:
  "Version strings are compared as dotted/alnum version tuples". \<open>version_key\<close> cuts a
  string into its runs of digits and runs of letters, every other character being a
  separator; a run of digits counts as a number, a run of letters as text, and text
  sorts before numbers. Keys are compared as tuples, that is lexicographically.
  The functions of this section that compare versions take the key as a parameter, so
  that what is proved of them holds for every order on versions.
\<close>

datatype version_run = NoRun | DigitRun nat | AlphaRun string

definition is_alpha :: "char \<Rightarrow> bool" where
  "is_alpha c \<longleftrightarrow>
     (65 \<le> (of_char c :: nat) \<and> (of_char c :: nat) \<le> 90)
     \<or> (97 \<le> (of_char c :: nat) \<and> (of_char c :: nat) \<le> 122)"

fun emit_run :: "version_run \<Rightarrow> nat list list" where
  "emit_run NoRun = []"
| "emit_run (DigitRun n) = [[1, n]]"
| "emit_run (AlphaRun s) = [0 # map of_char s]"

fun version_parts :: "version_run \<Rightarrow> string \<Rightarrow> nat list list" where
  "version_parts r [] = emit_run r"
| "version_parts r (c # cs) =
     (if is_digit c
      then (case r of
              DigitRun n \<Rightarrow> version_parts (DigitRun (10 * n + digit_val c)) cs
            | _ \<Rightarrow> emit_run r @ version_parts (DigitRun (digit_val c)) cs)
      else if is_alpha c
      then (case r of
              AlphaRun s \<Rightarrow> version_parts (AlphaRun (s @ [c])) cs
            | _ \<Rightarrow> emit_run r @ version_parts (AlphaRun [c]) cs)
      else emit_run r @ version_parts NoRun cs)"

definition version_key :: "string \<Rightarrow> nat list list" where
  "version_key s = version_parts NoRun s"

text \<open>
  The classification in \<^verbatim>\<open>app_upgrade\<close>, with the current version, the version of the new
  manifest and \<^verbatim>\<open>force\<close>:
  \<^verbatim>\<open>
  upgrade_type = "UNKNOWN"
  if "~ynh" in str(app_current_version) and "~ynh" in str(app_new_version):
      if app_current_version >= app_new_version and not force:
          ...  # already up to date: save update_time and current_revision
          continue
      elif app_current_version > app_new_version:
          upgrade_type = "DOWNGRADE_FORCED"
      elif app_current_version == app_new_version:
          upgrade_type = "UPGRADE_FORCED"
      else:
          app_current_version_upstream, app_current_version_pkg = str(
              app_current_version).split("~ynh")
          app_new_version_upstream, app_new_version_pkg = str(
              app_new_version).split("~ynh")
          if app_current_version_upstream == app_new_version_upstream:
              upgrade_type = "UPGRADE_PACKAGE"
          elif app_current_version_pkg == app_new_version_pkg:
              upgrade_type = "UPGRADE_APP"
          else:
              upgrade_type = "UPGRADE_FULL"
  \<close>
  \<open>AlreadyUpToDate\<close> is the branch that ends with \<^verbatim>\<open>continue\<close>: no script is run.
  \<open>RunUpgrade t\<close> goes on to the upgrade script with \<^verbatim>\<open>YNH_APP_UPGRADE_TYPE\<close> set to \<open>t\<close>.
  Unpacking a split into other than two parts raises \<^verbatim>\<open>ValueError\<close>.
\<close>

datatype upgrade_type =
  UNKNOWN | DOWNGRADE_FORCED | UPGRADE_FORCED | UPGRADE_PACKAGE | UPGRADE_APP | UPGRADE_FULL

datatype upgrade_decision = AlreadyUpToDate | RunUpgrade upgrade_type

definition classify_upgrade ::
  "(string \<Rightarrow> 'k::linorder) \<Rightarrow> string \<Rightarrow> string \<Rightarrow> bool \<Rightarrow> error + upgrade_decision"
where
  "classify_upgrade key app_current_version app_new_version force =
     (if contains_ynh app_current_version \<and> contains_ynh app_new_version
      then (if key app_current_version \<ge> key app_new_version \<and> \<not> force
            then Inr AlreadyUpToDate
            else if key app_current_version > key app_new_version
            then Inr (RunUpgrade DOWNGRADE_FORCED)
            else if key app_current_version = key app_new_version
            then Inr (RunUpgrade UPGRADE_FORCED)
            else (case (split_ynh [] app_current_version, split_ynh [] app_new_version) of
                    ([current_upstream, current_pkg], [new_upstream, new_pkg]) \<Rightarrow>
                      Inr (RunUpgrade
                             (if current_upstream = new_upstream then UPGRADE_PACKAGE
                              else if current_pkg = new_pkg then UPGRADE_APP
                              else UPGRADE_FULL))
                  | _ \<Rightarrow> Inl ValueError))
      else Inr (RunUpgrade UNKNOWN))"

section \<open>The state of the system\<close>

text \<open>
  Modelled from the spec: the Permission Directory is another module
  (\<^verbatim>\<open>yunohost.permission\<close>). The spec gives its interface: "create/update/delete a named
  permission with {allowed principals, label, show-in-portal flag, url, additional urls,
  auth-header flag}; list permissions (optionally filtered to given app ids)". A
  permission is a record of these fields, the directory an association list from the
  permission's name, and the operations below do what their names say and nothing else.
\<close>

record permission =
  perm_allowed :: "string list"
  perm_label :: string
  perm_show_tile :: bool
  perm_url :: "string option"
  perm_additional_urls :: "string list"
  perm_auth_header :: bool
  perm_protected :: bool

text \<open>
  What the orchestrator does that a claim speaks of, in the order it happens: a
  lifecycle script was called for an instance, the system health check was run.
\<close>

datatype event =
    ScriptRun string string
  | SanityCheck string string

text \<open>
  \<^item> \<open>app_dirs\<close>: the directories under \<^verbatim>\<open>/etc/yunohost/apps/\<close>, by instance id, each with the
    content of its \<^verbatim>\<open>settings.yml\<close> (\<open>None\<close> when the file cannot be read);
  \<^item> \<open>permissions\<close>: the Permission Directory;
  \<^item> \<open>workdirs\<close>: the scratch directories under \<^verbatim>\<open>APP_TMP_WORKDIRS\<close>;
  \<^item> \<open>services\<close>: the status \<^verbatim>\<open>service_status(s)["status"]\<close> of each service;
  \<^item> \<open>dpkg_broken\<close>: \<^verbatim>\<open>packages.dpkg_is_broken()\<close>;
  \<^item> \<open>trace\<close>: the events so far.
\<close>

record world =
  app_dirs :: "(string \<times> pydict option) list"
  permissions :: "(string \<times> permission) list"
  workdirs :: "string list"
  services :: "(string \<times> string) list"
  dpkg_broken :: bool
  trace :: "event list"


subsection \<open>Permission Directory\<close>

text \<open>
  Modelled from the spec: \<^verbatim>\<open>user_permission_list(apps=[app])["permissions"]\<close>, the permissions
  of one app, whose names start with the instance id and a dot.
\<close>

definition user_permission_list_of :: "world \<Rightarrow> string \<Rightarrow> (string \<times> permission) list" where
  "user_permission_list_of w app = filter (\<lambda>(name, p). prefix (app @ ''.'') name) (permissions w)"

text \<open>Modelled from the spec: \<^verbatim>\<open>permission_create\<close>.\<close>

definition permission_create :: "string \<Rightarrow> permission \<Rightarrow> world \<Rightarrow> world" where
  "permission_create name p w = w\<lparr>permissions := AList.update name p (permissions w)\<rparr>"

text \<open>Modelled from the spec: \<^verbatim>\<open>permission_delete\<close>.\<close>

definition permission_delete :: "string \<Rightarrow> world \<Rightarrow> world" where
  "permission_delete name w = w\<lparr>permissions := AList.delete name (permissions w)\<rparr>"

text \<open>
  Modelled from the spec: \<^verbatim>\<open>user_permission_update(name, add=..., remove=...)\<close> on the allowed
  principals.
\<close>

definition user_permission_update_add :: "string \<Rightarrow> string \<Rightarrow> world \<Rightarrow> world" where
  "user_permission_update_add name who w =
     w\<lparr>permissions := AList.map_entry name
          (\<lambda>p. p\<lparr>perm_allowed := List.insert who (perm_allowed p)\<rparr>) (permissions w)\<rparr>"

definition user_permission_update_remove :: "string \<Rightarrow> string \<Rightarrow> world \<Rightarrow> world" where
  "user_permission_update_remove name who w =
     w\<lparr>permissions := AList.map_entry name
          (\<lambda>p. p\<lparr>perm_allowed := removeAll who (perm_allowed p)\<rparr>) (permissions w)\<rparr>"

text \<open>
  Modelled from the spec: \<^verbatim>\<open>permission_url\<close>, in the three forms \<^verbatim>\<open>app_setting\<close> uses:
  \<^verbatim>\<open>url=...\<close>, \<^verbatim>\<open>clear_urls=True\<close> and \<^verbatim>\<open>add_url=[...]\<close>.
\<close>

definition permission_url_set :: "string \<Rightarrow> string \<Rightarrow> world \<Rightarrow> world" where
  "permission_url_set name u w =
     w\<lparr>permissions := AList.map_entry name (\<lambda>p. p\<lparr>perm_url := Some u\<rparr>) (permissions w)\<rparr>"

definition permission_url_clear :: "string \<Rightarrow> world \<Rightarrow> world" where
  "permission_url_clear name w =
     w\<lparr>permissions := AList.map_entry name
          (\<lambda>p. p\<lparr>perm_url := None, perm_additional_urls := []\<rparr>) (permissions w)\<rparr>"

definition permission_url_add :: "string \<Rightarrow> string list \<Rightarrow> world \<Rightarrow> world" where
  "permission_url_add name urls w =
     w\<lparr>permissions := AList.map_entry name
          (\<lambda>p. p\<lparr>perm_additional_urls := perm_additional_urls p @ urls\<rparr>) (permissions w)\<rparr>"

section \<open>The App Record Store\<close>

text \<open>\<^verbatim>\<open>_is_installed(app)\<close>: \<^verbatim>\<open>os.path.isdir(APPS_SETTING_PATH + app)\<close>.\<close>

definition is_installed :: "world \<Rightarrow> string \<Rightarrow> bool" where
  "is_installed w app \<longleftrightarrow> map_of (app_dirs w) app \<noteq> None"

text \<open>\<^verbatim>\<open>_installed_apps()\<close>: \<^verbatim>\<open>os.listdir(APPS_SETTING_PATH)\<close>.\<close>

definition installed_apps :: "world \<Rightarrow> string list" where
  "installed_apps w = map fst (app_dirs w)"

text \<open>
  \<^verbatim>\<open>_set_app_settings(app_id, settings)\<close> opens \<^verbatim>\<open>settings.yml\<close> for writing, which fails when
  the directory of the instance does not exist.
\<close>

definition set_app_settings :: "string \<Rightarrow> pydict \<Rightarrow> world \<Rightarrow> (error + unit) \<times> world" where
  "set_app_settings app settings w =
     (if \<not> is_installed w app then (Inl FileNotFoundError, w)
      else (Inr (), w\<lparr>app_dirs := AList.update app (Some settings) (app_dirs w)\<rparr>))"

text \<open>
  The test of \<^verbatim>\<open>_get_app_settings\<close> on the stored path:
  \<^verbatim>\<open>
  if settings.get("path") != "/" and (
      settings.get("path", "").endswith("/")
      or not settings.get("path", "/").startswith("/")
  ):
  \<close>
  Without a path the test is false. On a string it asks whether the path is not in
  normal form. On any other value \<^verbatim>\<open>.endswith\<close> raises \<^verbatim>\<open>AttributeError\<close>.
\<close>

definition path_needs_fix :: "string \<Rightarrow> bool" where
  "path_needs_fix p \<longleftrightarrow> p \<noteq> ''/'' \<and> (suffix ''/'' p \<or> \<not> prefix ''/'' p)"

text \<open>
  \<^verbatim>\<open>
  def _get_app_settings(app_id):
      if not _is_installed(app_id):
          raise YunohostValidationError("app_not_installed", ...)
      try:
          with open(os.path.join(APPS_SETTING_PATH, app_id, "settings.yml")) as f:
              settings = yaml.safe_load(f)
          settings = {k: v for k, v in settings.items()}
          if settings.get("path") != "/" and (...):
              settings["path"] = "/" + settings["path"].strip("/")
              _set_app_settings(app_id, settings)
          if app_id == settings["id"]:
              return settings
      except (IOError, TypeError, KeyError):
          logger.error(m18n.n("app_not_correctly_installed", app=app_id))
      return {}
  \<close>
  The function returns the settings and the state: normalising the path writes the file.
\<close>

definition get_app_settings :: "string \<Rightarrow> world \<Rightarrow> (error + pydict) \<times> world" where
  "get_app_settings app w =
     (case map_of (app_dirs w) app of
        None \<Rightarrow> (Inl (YunohostValidationError ''app_not_installed''), w)
      | Some None \<Rightarrow> (Inr [], w)
      | Some (Some settings) \<Rightarrow>
          (case map_of settings ''path'' of
             None \<Rightarrow>
               (Inr (if map_of settings ''id'' = Some (YStr app) then settings else []), w)
           | Some (YStr p) \<Rightarrow>
               (if path_needs_fix p
                then (let settings' = AList.update ''path'' (YStr (slash_normal_form p)) settings;
                          w' = snd (set_app_settings app settings' w)
                      in (Inr (if map_of settings' ''id'' = Some (YStr app) then settings' else []),
                          w'))
                else (Inr (if map_of settings ''id'' = Some (YStr app) then settings else []), w))
           | Some other \<Rightarrow> (Inl AttributeError, w)))"

subsection \<open>\<^verbatim>\<open>app_setting\<close>\<close>

text \<open>Python's \<^verbatim>\<open>s.split(c)\<close> for a separator of one character.\<close>

fun split_char :: "char \<Rightarrow> string \<Rightarrow> string \<Rightarrow> string list" where
  "split_char sep cur [] = [cur]"
| "split_char sep cur (c # cs) =
     (if c = sep then cur # split_char sep [] cs else split_char sep (cur @ [c]) cs)"

text \<open>Python's \<^verbatim>\<open>",".join(xs)\<close>.\<close>

fun join_comma :: "string list \<Rightarrow> string" where
  "join_comma [] = []"
| "join_comma [x] = x"
| "join_comma (x # y # ys) = x @ '','' @ join_comma (y # ys)"

text \<open>
  \<^verbatim>\<open>
  is_legacy_permission_setting = any(
      key.startswith(word + "_") for word in ["unprotected", "protected", "skipped"]
  )
  \<close>
\<close>

definition is_legacy_permission_setting :: "string \<Rightarrow> bool" where
  "is_legacy_permission_setting key \<longleftrightarrow>
     prefix ''unprotected_'' key \<or> prefix ''protected_'' key \<or> prefix ''skipped_'' key"

text \<open>\<^verbatim>\<open>"%s.legacy_%s_uris" % (app, key.split("_")[0])\<close>\<close>

definition legacy_permission_name :: "string \<Rightarrow> string \<Rightarrow> string" where
  "legacy_permission_name app key =
     app @ ''.legacy_'' @ hd (split_char CHR ''_'' [] key) @ ''_uris''"

text \<open>
  The branch of \<^verbatim>\<open>app_setting\<close> for a legacy permission setting, after the settings were
  read. \<open>YNull\<close> is Python's \<^verbatim>\<open>None\<close>: \<^verbatim>\<open>value is None and not delete\<close> is the reading call.
  The permission record of the directory has no field \<^verbatim>\<open>uris\<close>, so
  \<^verbatim>\<open>permission.get("uris", [])\<close> is the empty list. \<open>legacy_permission_label\<close> is the label
  \<^verbatim>\<open>yunohost.utils.legacy.legacy_permission_label\<close> gives, a parameter.
\<close>

definition legacy_permission_setting ::
  "(string \<Rightarrow> string \<Rightarrow> string) \<Rightarrow> pydict \<Rightarrow> string \<Rightarrow> string \<Rightarrow> yval \<Rightarrow> bool \<Rightarrow> world
     \<Rightarrow> (error + yval) \<times> world"
where
  "legacy_permission_setting legacy_permission_label app_settings app key value delete w =
     (let perms = user_permission_list_of w app;
          permission_name = legacy_permission_name app key;
          permission = map_of perms permission_name
      in if value = YNull \<and> \<not> delete
         then (Inr (case permission of
                      Some p \<Rightarrow> YStr (join_comma (perm_additional_urls p))
                    | None \<Rightarrow> YNull), w)
         else if delete
         then (if map_of app_settings ''is_public'' \<noteq> None
               then (case map_of perms (app @ ''.main'') of
                       None \<Rightarrow> (Inl (KeyError (app @ ''.main'')), w)
                     | Some main \<Rightarrow>
                         (let w1 = (if ''visitors'' \<in> set (perm_allowed main)
                                       \<and> (prefix ''unprotected_'' key \<or> prefix ''skipped_'' key)
                                    then user_permission_update_remove (app @ ''.main'') ''visitors'' w
                                    else w)
                          in (Inr YNull,
                              if permission \<noteq> None then permission_delete permission_name w1 else w1)))
               else (Inr YNull,
                     if permission \<noteq> None then permission_delete permission_name w else w))
         else if value = YStr ''/''
         then (if prefix ''unprotected_'' key \<or> prefix ''skipped_'' key
               then (Inr YNull,
                     user_permission_update_add (app @ ''.main'') ''visitors''
                       (permission_url_set (app @ ''.main'') ''/'' w))
               else (Inr YNull, user_permission_update_remove (app @ ''.main'') ''visitors'' w))
         else (case value of
                 YStr s \<Rightarrow>
                   (let urls0 = split_char CHR '','' [] s;
                        urls = (if suffix ''_regex'' key then map (\<lambda>u. ''re:'' @ u) urls0 else urls0)
                    in (case permission of
                          Some p \<Rightarrow>
                            (let current_urls_or_regex =
                                   (if suffix ''_regex'' key
                                    then filter (\<lambda>u. \<not> prefix ''re:'' u) (perm_additional_urls p)
                                    else filter (\<lambda>u. prefix ''re:'' u) (perm_additional_urls p));
                                 new_urls = urls @ current_urls_or_regex
                             in (Inr YNull,
                                 permission_url_add permission_name new_urls
                                   (permission_url_clear permission_name w)))
                        | None \<Rightarrow>
                            (Inr YNull,
                             permission_create permission_name
                               \<lparr>perm_allowed = (if prefix ''protected_'' key then [''all_users'']
                                                 else [''all_users'', ''visitors'']),
                                perm_label = legacy_permission_label app
                                               (hd (split_char CHR ''_'' [] key)),
                                perm_show_tile = False,
                                perm_url = None,
                                perm_additional_urls = urls,
                                perm_auth_header = (\<not> prefix ''skipped_'' key),
                                perm_protected = True\<rparr> w)))
               | other \<Rightarrow> (Inl AttributeError, w)))"

text \<open>
  \<^verbatim>\<open>app_setting(app, key, value=None, delete=False)\<close>. \<open>yaml_safe_load\<close> is \<^verbatim>\<open>yaml.safe_load\<close>, a
  parameter.
  \<^verbatim>\<open>
  app_settings = _get_app_settings(app) or {}
  ...
  if is_legacy_permission_setting:
      ...
      return
  # GET
  if value is None and not delete:
      return app_settings.get(key, None)
  # DELETE
  if delete:
      if key in app_settings:
          del app_settings[key]
  # SET
  else:
      if key in ["redirected_urls", "redirected_regex"]:
          value = yaml.safe_load(value)
      app_settings[key] = value
  _set_app_settings(app, app_settings)
  \<close>
\<close>

definition app_setting ::
  "(yval \<Rightarrow> error + yval) \<Rightarrow> (string \<Rightarrow> string \<Rightarrow> string) \<Rightarrow> string \<Rightarrow> string \<Rightarrow> yval \<Rightarrow> bool
     \<Rightarrow> world \<Rightarrow> (error + yval) \<times> world"
where
  "app_setting yaml_safe_load legacy_permission_label app key value delete w =
     (case get_app_settings app w of
        (Inl e, w1) \<Rightarrow> (Inl e, w1)
      | (Inr app_settings, w1) \<Rightarrow>
          if is_legacy_permission_setting key
          then legacy_permission_setting legacy_permission_label app_settings app key value delete w1
          else if value = YNull \<and> \<not> delete
          then (Inr (case map_of app_settings key of Some v \<Rightarrow> v | None \<Rightarrow> YNull), w1)
          else if delete
          then (case set_app_settings app (AList.delete key app_settings) w1 of
                  (Inl e, w2) \<Rightarrow> (Inl e, w2)
                | (Inr u, w2) \<Rightarrow> (Inr YNull, w2))
          else (if key \<in> {''redirected_urls'', ''redirected_regex''}
                then (case yaml_safe_load value of
                        Inl e \<Rightarrow> (Inl e, w1)
                      | Inr value' \<Rightarrow>
                          (case set_app_settings app (AList.update key value' app_settings) w1 of
                             (Inl e, w2) \<Rightarrow> (Inl e, w2)
                           | (Inr u, w2) \<Rightarrow> (Inr YNull, w2)))
                else (case set_app_settings app (AList.update key value app_settings) w1 of
                        (Inl e, w2) \<Rightarrow> (Inl e, w2)
                      | (Inr u, w2) \<Rightarrow> (Inr YNull, w2))))"

subsection \<open>Notions used to state the properties of the store\<close>

text \<open>The settings as \<^verbatim>\<open>_get_app_settings\<close> leaves them: a path not in normal form is normalised.\<close>

definition fix_path :: "pydict \<Rightarrow> pydict" where
  "fix_path settings =
     (case map_of settings ''path'' of
        Some (YStr p) \<Rightarrow>
          if path_needs_fix p then AList.update ''path'' (YStr (slash_normal_form p)) settings
          else settings
      | _ \<Rightarrow> settings)"

text \<open>
  The record of an instance is well formed when its \<^verbatim>\<open>settings.yml\<close> can be read, its \<^verbatim>\<open>id\<close>
  is the instance id, and its path, if it has one, is a string.
\<close>

definition well_formed_record :: "world \<Rightarrow> string \<Rightarrow> bool" where
  "well_formed_record w app \<longleftrightarrow>
     (case map_of (app_dirs w) app of
        Some (Some settings) \<Rightarrow>
          map_of settings ''id'' = Some (YStr app)
          \<and> (case map_of settings ''path'' of
                None \<Rightarrow> True | Some (YStr p) \<Rightarrow> True | Some other \<Rightarrow> False)
      | _ \<Rightarrow> False)"

text \<open>
  A key and a value that \<^verbatim>\<open>app_setting\<close> stores as they are and reads back as they are:
  a value other than \<^verbatim>\<open>None\<close> (which asks for a read), a key that is no legacy permission
  setting and that \<^verbatim>\<open>yaml.safe_load\<close> is not applied to, the instance id itself under the key
  \<^verbatim>\<open>id\<close>, and a path in normal form under the key \<^verbatim>\<open>path\<close>.
\<close>

definition stored_as_given :: "string \<Rightarrow> string \<Rightarrow> yval \<Rightarrow> bool" where
  "stored_as_given app key value \<longleftrightarrow>
     value \<noteq> YNull
     \<and> \<not> is_legacy_permission_setting key
     \<and> key \<notin> {''redirected_urls'', ''redirected_regex''}
     \<and> (if key = ''id'' then value = YStr app
         else if key = ''path'' then (case value of YStr p \<Rightarrow> \<not> path_needs_fix p | _ \<Rightarrow> False)
         else True)"

text \<open>The stored path of the instance is a string that is not in normal form.\<close>

definition path_fix_pending :: "world \<Rightarrow> string \<Rightarrow> bool" where
  "path_fix_pending w app \<longleftrightarrow>
     (case map_of (app_dirs w) app of
        Some (Some settings) \<Rightarrow>
          (case map_of settings ''path'' of Some (YStr p) \<Rightarrow> path_needs_fix p | _ \<Rightarrow> False)
      | _ \<Rightarrow> False)"

text \<open>A state for the examples: one web app \<^verbatim>\<open>foo\<close> whose stored path ends with a slash.\<close>

definition example_world :: world where
  "example_world =
     \<lparr>app_dirs = [(''foo'', Some [(''id'', YStr ''foo''), (''domain'', YStr ''d.tld''),
                                  (''path'', YStr ''/blog/'')])],
      permissions = [(''foo.main'',
                      \<lparr>perm_allowed = [''all_users''], perm_label = ''Foo'',
                       perm_show_tile = True, perm_url = Some ''/'',
                       perm_additional_urls = [], perm_auth_header = True,
                       perm_protected = False\<rparr>)],
      workdirs = [],
      services = [(''nginx'', ''running''), (''fail2ban'', ''running'')],
      dpkg_broken = False,
      trace = []\<rparr>"

section \<open>Lifecycle operations: what they share\<close>

subsection \<open>Manifests and external collaborators\<close>

text \<open>
  The fields of a manifest that the lifecycle operations read: \<^verbatim>\<open>id\<close>, \<^verbatim>\<open>name\<close>, \<^verbatim>\<open>version\<close>,
  \<^verbatim>\<open>multi_instance\<close>, \<^verbatim>\<open>packaging_format\<close>, \<^verbatim>\<open>requirements\<close>, \<^verbatim>\<open>services\<close>,
  \<^verbatim>\<open>remote.revision\<close> and \<^verbatim>\<open>arguments.install\<close>. An optional field is \<open>None\<close> when the key is
  absent.
\<close>

record manifest =
  m_id :: "string option"
  m_name :: string
  m_version :: "string option"
  m_multi_instance :: "yval option"
  m_packaging_format :: int
  m_requirements :: "(string \<times> string) list"
  m_services :: "string list"
  m_revision :: "string option"
  m_install_questions :: "pydict list"

text \<open>
  The value of an environment variable passed to a script: a string, or Python's
  \<^verbatim>\<open>str(v)\<close> of an answer \<open>v\<close>, which is not expanded here.
\<close>

datatype env_value = Lit string | StrOf yval

type_synonym env_dict = "(string \<times> env_value) list"

text \<open>
  What \<^verbatim>\<open>hook_exec_with_script_debug_if_failure\<close> gives: the pair \<^verbatim>\<open>(failed, message)\<close>, or an
  exception it let through. What \<^verbatim>\<open>hook_exec\<close> gives: a return code, or an exception.
\<close>

datatype script_result = ScriptReturned bool string | ScriptRaised error

datatype hook_result = HookReturned int | HookRaised error

text \<open>An answered question of the install form: \<^verbatim>\<open>question.name\<close>, \<^verbatim>\<open>.type\<close>, \<^verbatim>\<open>.value\<close>.\<close>

record question =
  q_name :: string
  q_type :: string
  q_value :: yval

text \<open>An entry of the apps catalog, as \<^verbatim>\<open>_app_upgradable\<close> reads it.\<close>

record catalog_entry =
  cat_level :: yval
  cat_state :: "string option"
  cat_version :: "string option"
  cat_last_update :: "int option"
  cat_git :: bool

text \<open>
  The collaborators that are not part of the module, as parameters. The lifecycle
  scripts and the Package Fetcher act on the state of the system in ways the module does
  not decide: each is a function from the state to a result and a new state.
  \<^item> \<open>free_space\<close>: \<^verbatim>\<open>free_space_in_directory("/")\<close>;
  \<^item> \<open>confirmation\<close>: the interactive confirmation of \<^verbatim>\<open>confirm_install\<close> when \<^verbatim>\<open>force\<close> is
    not set, \<open>Some e\<close> when it raises;
  \<^item> \<open>extract_app\<close>: \<^verbatim>\<open>_extract_app(src)\<close>, the manifest and the extracted folder;
  \<^item> \<open>meets_version_specifier\<close>: \<^verbatim>\<open>packages.meets_version_specifier(pkgname, spec)\<close>;
  \<^item> \<open>ask_questions\<close>: \<^verbatim>\<open>ask_questions_and_parse_answers(raw_questions, prefilled_answers)\<close>;
  \<^item> \<open>guess_path_requirement\<close>: \<^verbatim>\<open>_guess_webapp_path_requirement(folder)\<close>, which reads the
    files of the extracted folder;
  \<^item> \<open>normalize_domain\<close>, \<open>normalize_path\<close>, \<open>known_domains\<close>, \<open>app_map_raw\<close>: see
    \<open>get_conflicting_apps\<close>;
  \<^item> \<open>stored_manifest_version\<close>: \<^verbatim>\<open>_get_manifest_of_app(path).get("version", "?")\<close> for the
    manifest stored with an instance, or the error of reading it;
  \<^item> \<open>local_manifest\<close>, \<open>catalog\<close>: the stored manifest and the catalog entry that
    \<^verbatim>\<open>app_info\<close> reads;
  \<^item> \<open>hook_exec_debug\<close>: \<^verbatim>\<open>hook_exec_with_script_debug_if_failure(path, env=...)\<close>;
  \<^item> \<open>hook_exec\<close>: \<^verbatim>\<open>hook_exec(path, args=..., env=...)\<close>;
  \<^item> \<open>now\<close>: \<^verbatim>\<open>int(time.time())\<close>;
  \<^item> \<open>yaml_safe_load\<close>, \<open>legacy_permission_label\<close>: see \<open>app_setting\<close>.
\<close>

record env =
  free_space :: nat
  confirmation :: "string \<Rightarrow> error option"
  extract_app :: "string \<Rightarrow> world \<Rightarrow> (error + manifest \<times> string) \<times> world"
  meets_version_specifier :: "string \<Rightarrow> string \<Rightarrow> bool"
  ask_questions :: "pydict list \<Rightarrow> pydict \<Rightarrow> error + question list"
  guess_path_requirement :: "string \<Rightarrow> string"
  normalize_domain :: "string \<Rightarrow> string"
  normalize_path :: "string \<Rightarrow> string"
  known_domains :: "string list"
  app_map_raw :: "world \<Rightarrow> apps_map"
  stored_manifest_version :: "string \<Rightarrow> world \<Rightarrow> error + string"
  local_manifest :: "string \<Rightarrow> world \<Rightarrow> error + manifest"
  catalog :: "string \<Rightarrow> catalog_entry option"
  hook_exec_debug :: "string \<Rightarrow> env_dict \<Rightarrow> world \<Rightarrow> script_result \<times> world"
  hook_exec :: "string \<Rightarrow> string list \<Rightarrow> env_dict \<Rightarrow> world \<Rightarrow> hook_result \<times> world"
  now :: int
  yaml_safe_load :: "yval \<Rightarrow> error + yval"
  legacy_permission_label :: "string \<Rightarrow> string \<Rightarrow> string"

text \<open>
  The trace is the record kept here of what the module does: what a collaborator returns
  as the trace is not used. Fetching a package records nothing.
\<close>

definition run_extract_app ::
  "env \<Rightarrow> string \<Rightarrow> world \<Rightarrow> (error + manifest \<times> string) \<times> world"
where
  "run_extract_app E src w =
     (case extract_app E src w of (r, w') \<Rightarrow> (r, w'\<lparr>trace := trace w\<rparr>))"

text \<open>
  Calling a script through either runner: the script acts on the state, and the call is
  recorded in the trace with the path of the script and the instance it is run for.
\<close>

definition run_script_debug ::
  "env \<Rightarrow> string \<Rightarrow> string \<Rightarrow> env_dict \<Rightarrow> world \<Rightarrow> script_result \<times> world"
where
  "run_script_debug E path app env_dict w =
     (case hook_exec_debug E path env_dict w of
        (r, w') \<Rightarrow> (r, w'\<lparr>trace := trace w @ [ScriptRun path app]\<rparr>))"

definition run_hook ::
  "env \<Rightarrow> string \<Rightarrow> string \<Rightarrow> string list \<Rightarrow> env_dict \<Rightarrow> world \<Rightarrow> hook_result \<times> world"
where
  "run_hook E path app args env_dict w =
     (case hook_exec E path args env_dict w of
        (r, w') \<Rightarrow> (r, w'\<lparr>trace := trace w @ [ScriptRun path app]\<rparr>))"

subsection \<open>\<^verbatim>\<open>_assert_system_is_sane_for_app\<close>\<close>

text \<open>
  \<^verbatim>\<open>
  services = manifest.get("services", [])
  services = [replace_alias(s) for s in services]
  service_filter = ["nginx", "php7.3-fpm", "mysql", "postfix"]
  services = [str(s) for s in services if s in service_filter]
  if "nginx" not in services:
      services = ["nginx"] + services
  if "fail2ban" not in services:
      services.append("fail2ban")
  \<close>
\<close>

definition replace_alias :: "string \<Rightarrow> string" where
  "replace_alias service =
     (if service \<in> {''php-fpm'', ''php5-fpm'', ''php7.0-fpm''} then ''php7.3-fpm'' else service)"

definition services_to_check :: "manifest \<Rightarrow> string list" where
  "services_to_check m =
     (let s1 = map replace_alias (m_services m);
          s2 = filter (\<lambda>s. s \<in> {''nginx'', ''php7.3-fpm'', ''mysql'', ''postfix''}) s1;
          s3 = (if ''nginx'' \<notin> set s2 then ''nginx'' # s2 else s2)
      in if ''fail2ban'' \<notin> set s3 then s3 @ [''fail2ban''] else s3)"

definition service_status :: "world \<Rightarrow> string \<Rightarrow> string" where
  "service_status w s = (case map_of (services w) s of Some st \<Rightarrow> st | None \<Rightarrow> ''unknown'')"

text \<open>
  The polling loop: at most 16 rounds, each left at once when no service is reloading.
  The result is the number of half-second waits.
  \<^verbatim>\<open>
  test_nb = 0
  while test_nb < 16:
      if not any(s for s in services if service_status(s)["status"] == "reloading"):
          break
      time.sleep(0.5)
      test_nb += 1
  \<close>
\<close>

fun wait_while_reloading :: "nat \<Rightarrow> world \<Rightarrow> string list \<Rightarrow> nat" where
  "wait_while_reloading 0 w svcs = 0"
| "wait_while_reloading (Suc rounds) w svcs =
     (if \<not> (\<exists>s \<in> set svcs. service_status w s = ''reloading'') then 0
      else Suc (wait_while_reloading rounds w svcs))"

text \<open>
  The check itself reads the state and raises or not; \<open>when\<close> is \<^verbatim>\<open>"pre"\<close> or \<^verbatim>\<open>"post"\<close>.
\<close>

definition system_sanity_error :: "manifest \<Rightarrow> string \<Rightarrow> world \<Rightarrow> error option" where
  "system_sanity_error m when w =
     (let svcs = services_to_check m;
          test_nb = wait_while_reloading 16 w svcs;
          faulty_services = filter (\<lambda>s. service_status w s \<noteq> ''running'') svcs
      in if faulty_services \<noteq> [] \<and> when = ''pre''
         then Some (YunohostValidationError
                      ''app_action_cannot_be_ran_because_required_services_down'')
         else if faulty_services \<noteq> [] \<and> when = ''post''
         then Some (YunohostError ''app_action_broke_system'')
         else if dpkg_broken w \<and> when = ''pre''
         then Some (YunohostValidationError ''dpkg_is_broken'')
         else if dpkg_broken w \<and> when = ''post''
         then Some (YunohostError ''this_action_broke_dpkg'')
         else None)"

text \<open>A call of the check is recorded in the trace.\<close>

definition assert_system_is_sane_for_app ::
  "manifest \<Rightarrow> string \<Rightarrow> world \<Rightarrow> error option \<times> world"
where
  "assert_system_is_sane_for_app m when w =
     (system_sanity_error m when w, w\<lparr>trace := trace w @ [SanityCheck when (m_name m)]\<rparr>)"

subsection \<open>\<^verbatim>\<open>_check_manifest_requirements\<close>\<close>

text \<open>
  \<^verbatim>\<open>
  packaging_format = int(manifest.get("packaging_format", 0))
  if packaging_format not in [0, 1]:
      raise YunohostValidationError("app_packaging_format_not_supported")
  requirements = manifest.get("requirements", dict())
  ...
  for pkgname, spec in requirements.items():
      if not packages.meets_version_specifier(pkgname, spec):
          raise YunohostValidationError("app_requirements_unmeet", ...)
  \<close>
\<close>

definition check_manifest_requirements :: "env \<Rightarrow> manifest \<Rightarrow> error option" where
  "check_manifest_requirements E m =
     (if m_packaging_format m \<notin> {0, 1}
      then Some (YunohostValidationError ''app_packaging_format_not_supported'')
      else if \<exists>(pkgname, spec) \<in> set (m_requirements m). \<not> meets_version_specifier E pkgname spec
      then Some (YunohostValidationError ''app_requirements_unmeet'')
      else None)"

subsection \<open>\<^verbatim>\<open>_make_environment_for_app_script\<close>\<close>

definition py_upper_char :: "char \<Rightarrow> char" where
  "py_upper_char c =
     (if 97 \<le> (of_char c :: nat) \<and> (of_char c :: nat) \<le> 122
      then char_of ((of_char c :: nat) - 32) else c)"

definition py_lower_char :: "char \<Rightarrow> char" where
  "py_lower_char c =
     (if 65 \<le> (of_char c :: nat) \<and> (of_char c :: nat) \<le> 90
      then char_of ((of_char c :: nat) + 32) else c)"

text \<open>
  \<^verbatim>\<open>
  manifest = _get_manifest_of_app(app_setting_path)
  app_id, app_instance_nb = _parse_app_instance_name(app)
  env_dict = {
      "YNH_APP_ID": app_id,
      "YNH_APP_INSTANCE_NAME": app,
      "YNH_APP_INSTANCE_NUMBER": str(app_instance_nb),
      "YNH_APP_MANIFEST_VERSION": manifest.get("version", "?"),
  }
  if workdir:
      env_dict["YNH_APP_BASEDIR"] = workdir
  for arg_name, arg_value in args.items():
      env_dict["YNH_%s%s" % (args_prefix, arg_name.upper())] = str(arg_value)
  \<close>
  The prefix of the arguments is always \<^verbatim>\<open>APP_ARG_\<close> in the calls modelled here.
\<close>

definition make_environment_for_app_script ::
  "env \<Rightarrow> string \<Rightarrow> pydict \<Rightarrow> string \<Rightarrow> world \<Rightarrow> error + env_dict"
where
  "make_environment_for_app_script E app args workdir w =
     (case stored_manifest_version E app w of
        Inl e \<Rightarrow> Inl e
      | Inr version \<Rightarrow>
          (case parse_app_instance_name app of
             Inl e \<Rightarrow> Inl e
           | Inr (app_id, app_instance_nb) \<Rightarrow>
               Inr (fold (\<lambda>(arg_name, arg_value).
                            AList.update (''YNH_APP_ARG_'' @ map py_upper_char arg_name)
                              (StrOf arg_value))
                      args
                      ((if workdir \<noteq> [] then AList.update ''YNH_APP_BASEDIR'' (Lit workdir)
                        else id)
                         [(''YNH_APP_ID'', Lit app_id),
                          (''YNH_APP_INSTANCE_NAME'', Lit app),
                          (''YNH_APP_INSTANCE_NUMBER'', Lit (py_str app_instance_nb)),
                          (''YNH_APP_MANIFEST_VERSION'', Lit version)]))))"

text \<open>\<^verbatim>\<open>is_true(arg)\<close>, on the values a manifest can hold.\<close>

definition is_true :: "yval \<Rightarrow> bool" where
  "is_true arg =
     (case arg of
        YBool b \<Rightarrow> b
      | YStr s \<Rightarrow> map py_lower_char s \<in> {''yes'', ''true'', ''on''}
      | YNull \<Rightarrow> False
      | YInt n \<Rightarrow> n \<noteq> 0
      | YList xs \<Rightarrow> xs \<noteq> []
      | YDict d \<Rightarrow> d \<noteq> [])"

text \<open>The message of an exception, \<^verbatim>\<open>str(e)\<close>, for the exceptions that carry one.\<close>

definition error_message :: "error \<Rightarrow> string" where
  "error_message e =
     (case e of
        YunohostError s \<Rightarrow> s
      | YunohostValidationError s \<Rightarrow> s
      | KeyError s \<Rightarrow> s
      | _ \<Rightarrow> [])"

text \<open>
  The removal of the permissions of an instance, in \<^verbatim>\<open>app_install\<close> and \<^verbatim>\<open>app_remove\<close>:
  \<^verbatim>\<open>
  for permission_name in user_permission_list()["permissions"].keys():
      if permission_name.startswith(app_instance_name + "."):
          permission_delete(permission_name, force=True, sync_perm=False)
  \<close>
\<close>

definition delete_permissions_of :: "string \<Rightarrow> world \<Rightarrow> world" where
  "delete_permissions_of app w =
     fold (\<lambda>permission_name w'.
             if prefix (app @ ''.'') permission_name then permission_delete permission_name w'
             else w')
       (map fst (permissions w)) w"

section \<open>Install\<close>

text \<open>
  \<^verbatim>\<open>_validate_webpath_requirement(args, path_requirement, ignore_app=None)\<close>:
  \<^verbatim>\<open>
  domain = args.get("domain")
  path = args.get("path")
  if path_requirement == "domain_and_path":
      _assert_no_conflicting_apps(domain, path, ignore_app=ignore_app)
  elif path_requirement == "full_domain":
      _assert_no_conflicting_apps(domain, "/", full_domain=True, ignore_app=ignore_app)
  \<close>
  The normalisers work on strings: an answer that is no string raises.
\<close>

definition validate_webpath_requirement ::
  "env \<Rightarrow> pydict \<Rightarrow> string \<Rightarrow> string option \<Rightarrow> world \<Rightarrow> error option"
where
  "validate_webpath_requirement E args path_requirement ignore_app w =
     (if path_requirement = ''domain_and_path''
      then (case (map_of args ''domain'', map_of args ''path'') of
              (Some (YStr domain), Some (YStr path)) \<Rightarrow>
                assert_no_conflicting_apps (normalize_domain E) (normalize_path E)
                  (known_domains E) (app_map_raw E w) domain path ignore_app False
            | _ \<Rightarrow> Some AttributeError)
      else if path_requirement = ''full_domain''
      then (case map_of args ''domain'' of
              Some (YStr domain) \<Rightarrow>
                assert_no_conflicting_apps (normalize_domain E) (normalize_path E)
                  (known_domains E) (app_map_raw E w) domain ''/'' ignore_app True
            | _ \<Rightarrow> Some AttributeError)
      else None)"

text \<open>
  \<^verbatim>\<open>
  args = {
      question.name: question.value
      for question in questions
      if question.value is not None
  }
  \<close>
\<close>

definition answers_of :: "question list \<Rightarrow> pydict" where
  "answers_of questions =
     fold (\<lambda>q d. if q_value q \<noteq> YNull then AList.update (q_name q) (q_value q) d else d)
       questions []"

text \<open>
  \<^verbatim>\<open>
  for question in questions:
      if question.type == "password":
          del env_dict_for_logging["YNH_APP_ARG_%s" % question.name.upper()]
  \<close>
  The copy for the log is not kept; the deletion raises \<^verbatim>\<open>KeyError\<close> when the variable is
  not there.
\<close>

definition redact_passwords :: "question list \<Rightarrow> env_dict \<Rightarrow> error option" where
  "redact_passwords questions env_dict =
     (case filter (\<lambda>q. q_type q = ''password''
                        \<and> map_of env_dict (''YNH_APP_ARG_'' @ map py_upper_char (q_name q)) = None)
             questions of
        [] \<Rightarrow> None
      | q # qs \<Rightarrow> Some (KeyError (''YNH_APP_ARG_'' @ map py_upper_char (q_name q))))"

text \<open>What the part of \<^verbatim>\<open>app_install\<close> before the install script hands to the rest.\<close>

record install_ctx =
  ctx_manifest :: manifest
  ctx_folder :: string
  ctx_app_id :: string
  ctx_instance :: string
  ctx_env_dict :: env_dict

text \<open>
  \<^verbatim>\<open>app_install\<close> up to the call of the install script: the checks (disk space,
  confirmation, id, requirements, health, instance number, questions, web path), then
  the creation of the settings directory with the initial settings, and of the main
  permission, then the environment of the script. \<open>label\<close> is the empty string when no
  label is given.
  \<^verbatim>\<open>
  if "id" not in manifest or "__" in manifest["id"] or "." in manifest["id"]:
      raise YunohostValidationError("app_id_invalid")
  app_id = manifest["id"]
  label = label if label else manifest["name"]
  _check_manifest_requirements(manifest)
  _assert_system_is_sane_for_app(manifest, "pre")
  instance_number = _next_instance_number_for_app(app_id)
  if instance_number > 1:
      if "multi_instance" not in manifest or not is_true(manifest["multi_instance"]):
          raise YunohostValidationError("app_already_installed", app=app_id)
      app_instance_name = app_id + "__" + str(instance_number)
  else:
      app_instance_name = app_id
  ...
  app_setting_path = os.path.join(APPS_SETTING_PATH, app_instance_name)
  if os.path.exists(app_setting_path):
      shutil.rmtree(app_setting_path)
  os.makedirs(app_setting_path)
  app_settings = {
      "id": app_instance_name,
      "install_time": int(time.time()),
      "current_revision": manifest.get("remote", {}).get("revision", "?"),
  }
  _set_app_settings(app_instance_name, app_settings)
  ...
  permission_create(app_instance_name + ".main", allowed=["all_users"], label=label,
                    show_tile=False, protected=False)
  env_dict = _make_environment_for_app_script(
      app_instance_name, args=args, workdir=extracted_app_folder)
  \<close>
\<close>

definition install_prepare ::
  "env \<Rightarrow> string \<Rightarrow> string \<Rightarrow> pydict \<Rightarrow> bool \<Rightarrow> world \<Rightarrow> (error + install_ctx) \<times> world"
where
  "install_prepare E app label args force w =
     (if free_space E \<le> 512 * 1000 * 1000
      then (Inl (YunohostValidationError ''disk_space_not_sufficient_install''), w)
      else case (if force then None else confirmation E app) of
        Some e \<Rightarrow> (Inl e, w)
      | None \<Rightarrow>
      (case run_extract_app E app w of
        (Inl e, w1) \<Rightarrow> (Inl e, w1)
      | (Inr (m, extracted_app_folder), w1) \<Rightarrow>
      (case m_id m of
        None \<Rightarrow> (Inl (YunohostValidationError ''app_id_invalid''), w1)
      | Some app_id \<Rightarrow>
      if contains_dunder app_id \<or> CHR ''.'' \<in> set app_id
      then (Inl (YunohostValidationError ''app_id_invalid''), w1)
      else case check_manifest_requirements E m of
        Some e \<Rightarrow> (Inl e, w1)
      | None \<Rightarrow>
      (case assert_system_is_sane_for_app m ''pre'' w1 of
        (Some e, w2) \<Rightarrow> (Inl e, w2)
      | (None, w2) \<Rightarrow>
      (case next_instance_number_for_app (installed_apps w2) app_id of
        Inl e \<Rightarrow> (Inl e, w2)
      | Inr instance_number \<Rightarrow>
      if instance_number > 1
         \<and> (case m_multi_instance m of None \<Rightarrow> True | Some v \<Rightarrow> \<not> is_true v)
      then (Inl (YunohostValidationError ''app_already_installed''), w2)
      else case ask_questions E (m_install_questions m) args of
        Inl e \<Rightarrow> (Inl e, w2)
      | Inr questions \<Rightarrow>
      (case validate_webpath_requirement E (answers_of questions)
              (guess_path_requirement E extracted_app_folder) None w2 of
        Some e \<Rightarrow> (Inl e, w2)
      | None \<Rightarrow>
      (let app_instance_name = app_instance_name_of app_id instance_number;
           w3 = w2\<lparr>app_dirs := AList.delete app_instance_name (app_dirs w2)
                                   @ [(app_instance_name, None)]\<rparr>;
           app_settings =
             [(''id'', YStr app_instance_name),
              (''install_time'', YInt (now E)),
              (''current_revision'',
                 YStr (case m_revision m of Some r \<Rightarrow> r | None \<Rightarrow> ''?''))]
       in case set_app_settings app_instance_name app_settings w3 of
         (Inl e, w4) \<Rightarrow> (Inl e, w4)
       | (Inr u, w4) \<Rightarrow>
       (let w5 = permission_create (app_instance_name @ ''.main'')
                   \<lparr>perm_allowed = [''all_users''],
                    perm_label = (if label \<noteq> [] then label else m_name m),
                    perm_show_tile = False,
                    perm_url = None,
                    perm_additional_urls = [],
                    perm_auth_header = True,
                    perm_protected = False\<rparr> w4
        in case make_environment_for_app_script E app_instance_name (answers_of questions)
                  extracted_app_folder w5 of
          Inl e \<Rightarrow> (Inl e, w5)
        | Inr env_dict \<Rightarrow>
        (case redact_passwords questions env_dict of
          Some e \<Rightarrow> (Inl e, w5)
        | None \<Rightarrow>
            (Inr \<lparr>ctx_manifest = m,
                  ctx_folder = extracted_app_folder,
                  ctx_app_id = app_id,
                  ctx_instance = app_instance_name,
                  ctx_env_dict = env_dict\<rparr>, w5))))))))))"

text \<open>
  The call of the install script:
  \<^verbatim>\<open>
  install_failed = True
  try:
      (install_failed, failure_message_with_debug_instructions,
      ) = hook_exec_with_script_debug_if_failure(
          os.path.join(extracted_app_folder, "scripts/install"), env=env_dict, ...)
  finally:
      ...
  \<close>
\<close>

definition run_install_script :: "env \<Rightarrow> install_ctx \<Rightarrow> world \<Rightarrow> script_result \<times> world" where
  "run_install_script E ctx w =
     run_script_debug E (ctx_folder ctx @ ''/scripts/install'') (ctx_instance ctx)
       (ctx_env_dict ctx) w"

text \<open>\<open>install_failed\<close> after the call: it keeps its initial \<^verbatim>\<open>True\<close> when the call raised.\<close>

definition script_failed :: "script_result \<Rightarrow> bool" where
  "script_failed r = (case r of ScriptReturned failed msg \<Rightarrow> failed | ScriptRaised e \<Rightarrow> True)"

text \<open>
  The removal after a failed install, from \<^verbatim>\<open>logger.warning(m18n.n("app_remove_after_failed_install"))\<close>
  to the final \<^verbatim>\<open>raise\<close>. \<open>message\<close> is \<^verbatim>\<open>failure_message_with_debug_instructions\<close>, \<open>None\<close> when
  the variable was never assigned.
  \<^verbatim>\<open>
  env_dict_remove = _make_environment_for_app_script(
      app_instance_name, workdir=extracted_app_folder)
  ...
  try:
      remove_retcode = hook_exec(
          os.path.join(extracted_app_folder, "scripts/remove"),
          args=[app_instance_name], env=env_dict_remove)[0]
  except (KeyboardInterrupt, EOFError, Exception):
      remove_retcode = -1
      ...
  for permission_name in user_permission_list()["permissions"].keys():
      if permission_name.startswith(app_instance_name + "."):
          permission_delete(permission_name, force=True, sync_perm=False)
  if remove_retcode != 0:
      ...
  else:
      try:
          _assert_system_is_sane_for_app(manifest, "post")
      except Exception as e:
          operation_logger_remove.error(e)
      else:
          operation_logger_remove.success()
  shutil.rmtree(app_setting_path)
  shutil.rmtree(extracted_app_folder)
  permission_sync_to_user()
  raise YunohostError(failure_message_with_debug_instructions, raw_msg=True)
  \<close>
  \<^verbatim>\<open>shutil.rmtree\<close> raises when the directory is not there. The block is cut in two: the
  remove script with the removal of the permissions and the health check, then the
  removal of the two directories with the final \<^verbatim>\<open>raise\<close>.
\<close>

definition remove_script_and_permissions :: "env \<Rightarrow> install_ctx \<Rightarrow> env_dict \<Rightarrow> world \<Rightarrow> world" where
  "remove_script_and_permissions E ctx env_dict_remove w =
     (case run_hook E (ctx_folder ctx @ ''/scripts/remove'') (ctx_instance ctx)
             [ctx_instance ctx] env_dict_remove w of
        (r, w1) \<Rightarrow>
          (let remove_retcode = (case r of HookReturned n \<Rightarrow> n | HookRaised e \<Rightarrow> - 1);
               w2 = delete_permissions_of (ctx_instance ctx) w1
           in if remove_retcode \<noteq> 0 then w2
              else snd (assert_system_is_sane_for_app (ctx_manifest ctx) ''post'' w2)))"

definition remove_directories :: "install_ctx \<Rightarrow> string option \<Rightarrow> world \<Rightarrow> error \<times> world" where
  "remove_directories ctx message w =
     (if \<not> is_installed w (ctx_instance ctx) then (FileNotFoundError, w)
      else (let w' = w\<lparr>app_dirs := AList.delete (ctx_instance ctx) (app_dirs w)\<rparr>
            in if ctx_folder ctx \<notin> set (workdirs w') then (FileNotFoundError, w')
               else (case message of
                       Some msg \<Rightarrow> YunohostError msg
                     | None \<Rightarrow> UnboundLocalError,
                     w'\<lparr>workdirs := removeAll (ctx_folder ctx) (workdirs w')\<rparr>)))"

definition remove_after_failed_install ::
  "env \<Rightarrow> install_ctx \<Rightarrow> string option \<Rightarrow> world \<Rightarrow> error \<times> world"
where
  "remove_after_failed_install E ctx message w =
     (case make_environment_for_app_script E (ctx_instance ctx) [] (ctx_folder ctx) w of
        Inl e \<Rightarrow> (e, w)
      | Inr env_dict_remove \<Rightarrow>
          remove_directories ctx message (remove_script_and_permissions E ctx env_dict_remove w))"

text \<open>
  The \<^verbatim>\<open>finally\<close> block and what follows it, given the result of the script and the state
  it left.
  \<^verbatim>\<open>
  finally:
      # If success so far, validate that app didn't break important stuff
      if not install_failed:
          try:
              broke_the_system = False
              _assert_system_is_sane_for_app(manifest, "post")
          except Exception as e:
              broke_the_system = True
              logger.error(m18n.n("app_install_failed", app=app_id, error=str(e)))
              failure_message_with_debug_instructions = operation_logger.error(str(e))
      ...
      # If the install failed or broke the system, we remove it
      if install_failed or broke_the_system:
          # This option is meant for packagers to debug their apps more easily
          if no_remove_on_failure:
              raise YunohostError(
                  "The installation of %s failed, but was not cleaned up as requested by --no-remove-on-failure."
                  % app_id, raw_msg=True)
          else:
              logger.warning(m18n.n("app_remove_after_failed_install"))
          ...
  # Clean hooks and add new ones
  hook_remove(app_instance_name)
  if "hooks" in os.listdir(extracted_app_folder):
      ...
  # Clean and set permissions
  shutil.rmtree(extracted_app_folder)
  chmod(app_setting_path, 0o600)
  chmod(f"{app_setting_path}/settings.yml", 0o400)
  ...
  \<close>
  The comparison of the configuration files before and after the script only logs.
\<close>

definition install_finish ::
  "env \<Rightarrow> install_ctx \<Rightarrow> bool \<Rightarrow> script_result \<Rightarrow> world \<Rightarrow> (error + unit) \<times> world"
where
  "install_finish E ctx no_remove_on_failure r w =
     (if script_failed r
      then (if no_remove_on_failure
            then (Inl (YunohostError ''installation failed, not cleaned up''), w)
            else (case remove_after_failed_install E ctx
                         (case r of ScriptReturned failed msg \<Rightarrow> Some msg
                                  | ScriptRaised e \<Rightarrow> None) w of
                    (e, w') \<Rightarrow> (Inl e, w')))
      else (case assert_system_is_sane_for_app (ctx_manifest ctx) ''post'' w of
              (Some e, w1) \<Rightarrow>
                (if no_remove_on_failure
                 then (Inl (YunohostError ''installation failed, not cleaned up''), w1)
                 else (case remove_after_failed_install E ctx (Some (error_message e)) w1 of
                         (e', w') \<Rightarrow> (Inl e', w')))
            | (None, w1) \<Rightarrow>
                (if ctx_folder ctx \<notin> set (workdirs w1) then (Inl FileNotFoundError, w1)
                 else (let w2 = w1\<lparr>workdirs := removeAll (ctx_folder ctx) (workdirs w1)\<rparr>
                       in if map_of (app_dirs w2) (ctx_instance ctx) \<in> {None, Some None}
                          then (Inl FileNotFoundError, w2)
                          else (Inr (), w2)))))"

text \<open>\<^verbatim>\<open>app_install(app, label, args, no_remove_on_failure, force)\<close>\<close>

definition app_install ::
  "env \<Rightarrow> string \<Rightarrow> string \<Rightarrow> pydict \<Rightarrow> bool \<Rightarrow> bool \<Rightarrow> world \<Rightarrow> (error + unit) \<times> world"
where
  "app_install E app label args no_remove_on_failure force w =
     (case install_prepare E app label args force w of
        (Inl e, w1) \<Rightarrow> (Inl e, w1)
      | (Inr ctx, w1) \<Rightarrow>
          (case run_install_script E ctx w1 of
             (r, w2) \<Rightarrow> install_finish E ctx no_remove_on_failure r w2))"



text \<open>The events recorded from the state \<open>w\<close> to the later state \<open>w'\<close>.\<close>

definition events_since :: "world \<Rightarrow> world \<Rightarrow> event list" where
  "events_since w w' = drop (length (trace w)) (trace w')"

subsection \<open>Collaborators for the examples\<close>

text \<open>
  A package source \<open>src\<close> is fetched as a multi-instance app of id \<open>src\<close> in the folder
  \<^verbatim>\<open>/tmp/app_\<close>\<open>src\<close>. The scripts of every instance succeed, except those of the instance
  \<^verbatim>\<open>bad\<close>, which fail without touching the state. There are no questions and no
  requirements.
\<close>

definition example_manifest :: "string \<Rightarrow> string \<Rightarrow> manifest" where
  "example_manifest src version =
     \<lparr>m_id = Some src, m_name = ''Demo'', m_version = Some version,
      m_multi_instance = Some (YBool True), m_packaging_format = 1, m_requirements = [],
      m_services = [''nginx''], m_revision = Some ''rev2'', m_install_questions = []\<rparr>"

definition example_extract :: "string \<Rightarrow> world \<Rightarrow> (error + manifest \<times> string) \<times> world" where
  "example_extract src w =
     (Inr (example_manifest src ''2.0~ynh1'', ''/tmp/app_'' @ src),
      w\<lparr>workdirs := (''/tmp/app_'' @ src) # workdirs w\<rparr>)"

definition example_script :: "string \<Rightarrow> env_dict \<Rightarrow> world \<Rightarrow> script_result \<times> world" where
  "example_script path env_dict w =
     (ScriptReturned (map_of env_dict ''YNH_APP_INSTANCE_NAME'' = Some (Lit ''bad''))
        ''script failed'', w)"

definition example_hook :: "string \<Rightarrow> string list \<Rightarrow> env_dict \<Rightarrow> world \<Rightarrow> hook_result \<times> world" where
  "example_hook path args env_dict w = (HookReturned 0, w)"

definition example_env :: env where
  "example_env =
     \<lparr>free_space = 1000 * 1000 * 1000,
      confirmation = (\<lambda>app. None),
      extract_app = example_extract,
      meets_version_specifier = (\<lambda>pkgname spec. True),
      ask_questions = (\<lambda>raw_questions prefilled. Inr []),
      guess_path_requirement = (\<lambda>folder. []),
      normalize_domain = id,
      normalize_path = slash_normal_form,
      known_domains = [''d.tld''],
      app_map_raw = (\<lambda>w. []),
      stored_manifest_version = (\<lambda>app w. Inr ''1.0~ynh1''),
      local_manifest = (\<lambda>app w. Inr (example_manifest app ''1.0~ynh1'')),
      catalog = (\<lambda>app. None),
      hook_exec_debug = example_script,
      hook_exec = example_hook,
      now = 1700000000,
      yaml_safe_load = Inr,
      legacy_permission_label = (@)\<rparr>"

text \<open>
  What the example gives for the first install of a source \<open>src\<close> up to the script: the
  context handed to the rest of the install, and the state.
\<close>

definition example_ctx :: "string \<Rightarrow> install_ctx" where
  "example_ctx src =
     \<lparr>ctx_manifest = example_manifest src ''2.0~ynh1'',
      ctx_folder = ''/tmp/app_'' @ src,
      ctx_app_id = src,
      ctx_instance = src,
      ctx_env_dict = [(''YNH_APP_ID'', Lit src),
                      (''YNH_APP_INSTANCE_NAME'', Lit src),
                      (''YNH_APP_INSTANCE_NUMBER'', Lit ''1''),
                      (''YNH_APP_MANIFEST_VERSION'', Lit ''1.0~ynh1''),
                      (''YNH_APP_BASEDIR'', Lit (''/tmp/app_'' @ src))]\<rparr>"

definition example_prepared :: "string \<Rightarrow> world" where
  "example_prepared src =
     example_world
       \<lparr>app_dirs := app_dirs example_world
                      @ [(src, Some [(''id'', YStr src),
                                     (''install_time'', YInt 1700000000),
                                     (''current_revision'', YStr ''rev2'')])],
        permissions := permissions example_world
                         @ [(src @ ''.main'',
                             \<lparr>perm_allowed = [''all_users''], perm_label = ''Demo'',
                              perm_show_tile = False, perm_url = None,
                              perm_additional_urls = [], perm_auth_header = True,
                              perm_protected = False\<rparr>)],
        workdirs := [''/tmp/app_'' @ src],
        trace := [SanityCheck ''pre'' ''Demo'']\<rparr>"






section \<open>Upgrade\<close>

subsection \<open>\<^verbatim>\<open>_app_upgradable\<close> and \<^verbatim>\<open>app_info\<close>\<close>




subsection \<open>One app of the batch\<close>




text \<open>
  \<^verbatim>\<open>
  now = int(time.time())
  app_setting(app_instance_name, "update_time", now)
  app_setting(app_instance_name, "current_revision",
              manifest.get("remote", {}).get("revision", "?"))
  \<close>
\<close>

definition save_update_time :: "env \<Rightarrow> string \<Rightarrow> manifest \<Rightarrow> world \<Rightarrow> (error + unit) \<times> world" where
  "save_update_time E app m w =
     (case app_setting (yaml_safe_load E) (legacy_permission_label E) app
             ''update_time'' (YInt (now E)) False w of
        (Inl e, w1) \<Rightarrow> (Inl e, w1)
      | (Inr v, w1) \<Rightarrow>
          (case app_setting (yaml_safe_load E) (legacy_permission_label E) app
                  ''current_revision''
                  (YStr (case m_revision m of Some r \<Rightarrow> r | None \<Rightarrow> ''?'')) False w1 of
             (Inl e, w2) \<Rightarrow> (Inl e, w2)
           | (Inr v', w2) \<Rightarrow> (Inr (), w2)))"

text \<open>
  The \<^verbatim>\<open>finally\<close> block of the upgrade of one app, given the result of the upgrade script
  and the state it left.
  \<^verbatim>\<open>
  finally:
      # Whatever happened (install success or failure) we check if it broke the system
      # and warn the user about it
      try:
          broke_the_system = False
          _assert_system_is_sane_for_app(manifest, "post")
      except Exception as e:
          broke_the_system = True
          ...
          failure_message_with_debug_instructions = operation_logger.error(str(e))
      ...
      # If upgrade failed or broke the system,
      # raise an error and interrupt all other pending upgrades
      if upgrade_failed or broke_the_system:
          # display this if there are remaining apps
          if apps[number + 1 :]:
              not_upgraded_apps = apps[number:]
              logger.error(m18n.n("app_not_upgraded", ...))
          raise YunohostError(failure_message_with_debug_instructions, raw_msg=True)
      # Otherwise we're good and keep going !
      now = int(time.time())
      app_setting(app_instance_name, "update_time", now)
      app_setting(app_instance_name, "current_revision", ...)
      # Clean hooks and add new ones
      hook_remove(app_instance_name)
      if "hooks" in os.listdir(extracted_app_folder):
          ...
      # Replace scripts and manifest and conf (if exists)
      ...
      # Clean and set permissions
      shutil.rmtree(extracted_app_folder)
      chmod(app_setting_path, 0o600)
      chmod(f"{app_setting_path}/settings.yml", 0o400)
      ...
  \<close>
\<close>

definition upgrade_finish ::
  "env \<Rightarrow> string \<Rightarrow> manifest \<Rightarrow> string \<Rightarrow> script_result \<Rightarrow> world \<Rightarrow> (error + unit) \<times> world"
where
  "upgrade_finish E app m extracted_app_folder r w =
     (case assert_system_is_sane_for_app m ''post'' w of
        (sanity, w1) \<Rightarrow>
          if script_failed r \<or> sanity \<noteq> None
          then (Inl (case (case sanity of
                             Some e \<Rightarrow> Some (error_message e)
                           | None \<Rightarrow> (case r of ScriptReturned failed msg \<Rightarrow> Some msg
                                               | ScriptRaised e \<Rightarrow> None)) of
                       Some msg \<Rightarrow> YunohostError msg
                     | None \<Rightarrow> UnboundLocalError), w1)
          else (case save_update_time E app m w1 of
                  (Inl e, w2) \<Rightarrow> (Inl e, w2)
                | (Inr u, w2) \<Rightarrow>
                    if extracted_app_folder \<notin> set (workdirs w2) then (Inl FileNotFoundError, w2)
                    else (let w3 = w2\<lparr>workdirs := removeAll extracted_app_folder (workdirs w2)\<rparr>
                          in if map_of (app_dirs w3) app \<in> {None, Some None}
                             then (Inl FileNotFoundError, w3)
                             else (Inr (), w3))))"




subsection \<open>The batch\<close>




subsection \<open>Notions used to state the properties of the batch\<close>





section \<open>Instance identity: proofs\<close>

subsection \<open>Decimal numerals\<close>











lemma nonzero_digit_is_digit: "is_nonzero_digit c \<Longrightarrow> is_digit c"
  by (simp add: is_nonzero_digit_def is_digit_def)












subsection \<open>The next instance number\<close>

lemma first_free_spec:
  "first_free ids i \<notin> set ids \<and> i \<le> first_free ids i
   \<and> (\<forall>j. i \<le> j \<and> j < first_free ids i \<longrightarrow> j \<in> set ids)"
proof (induction ids i rule: first_free.induct)
  case (1 ids i)
  show ?case
  proof (cases "i \<in> set ids")
    case False
    then have "first_free ids i = i" by (subst first_free.simps) simp
    with False show ?thesis by auto
  next
    case True
    with 1 have ih: "first_free ids (i + 1) \<notin> set ids" "i + 1 \<le> first_free ids (i + 1)"
      "\<forall>j. i + 1 \<le> j \<and> j < first_free ids (i + 1) \<longrightarrow> j \<in> set ids" by simp_all
    have eq: "first_free ids i = first_free ids (i + 1)"
      using True by (subst first_free.simps) simp
    have "\<And>j. i \<le> j \<Longrightarrow> j < first_free ids (i + 1) \<Longrightarrow> j \<in> set ids"
    proof -
      fix j assume "i \<le> j" "j < first_free ids (i + 1)"
      then show "j \<in> set ids" using ih(3) True by (cases "j = i") auto
    qed
    with ih eq show ?thesis by auto
  qed
qed

text \<open>
  What the loop computes: the least positive number that is not the parsed number of an
  id kept by the filter of \<open>sibling_app_ids\<close>.
\<close>

lemma next_instance_number_least_among_filtered:
  assumes "next_instance_number_for_app apps app = Inr n"
  shows "\<exists>sibling_ids. parse_instance_numbers (sibling_app_ids apps app) = Inr sibling_ids
      \<and> 1 \<le> n \<and> n \<notin> set sibling_ids \<and> (\<forall>j. 1 \<le> j \<and> j < n \<longrightarrow> j \<in> set sibling_ids)"
proof (cases "parse_instance_numbers (sibling_app_ids apps app)")
  case (Inl e)
  with assms show ?thesis by (simp add: next_instance_number_for_app_def)
next
  case (Inr ids)
  with assms have "n = first_free ids 1" by (simp add: next_instance_number_for_app_def)
  with Inr first_free_spec[of ids 1] show ?thesis by simp
qed

lemma next_instance_number_example:
  "next_instance_number_for_app [''foo'', ''foo__2'', ''foo__4''] ''foo'' = Inr 3"
  by (simp add: next_instance_number_for_app_def sibling_app_ids_def
      parse_app_instance_name_def re_app_instance_name_def match_tail_def at_end_def
      is_appid_char_def is_word_char_def is_digit_def is_nonzero_digit_def py_isdigit_def
      py_int_def digit_val_def first_free.simps)

text \<open>
  Claim C8. The next instance number should be the smallest positive integer that no
  installed instance of the base id holds. With \<^verbatim>\<open>foo\<close>, \<^verbatim>\<open>foo_\<close> and \<^verbatim>\<open>foo___2\<close> (the second
  instance of \<^verbatim>\<open>foo_\<close>) installed, the only instance of \<^verbatim>\<open>foo\<close> holds number 1, so the
  smallest free number is 2; the filter \<^verbatim>\<open>a.startswith(f"{app}__")\<close> also keeps \<^verbatim>\<open>foo___2\<close>,
  whose number 2 is counted, and the function returns 3.
\<close>

theorem next_instance_number_counts_other_base:
  "next_instance_number_for_app [''foo'', ''foo_'', ''foo___2''] ''foo'' = Inr 3
   \<and> instance_numbers_of [''foo'', ''foo_'', ''foo___2''] ''foo'' = [1]
   \<and> parse_app_instance_name ''foo___2'' = Inr (''foo_'', 2)"
  by (simp add: next_instance_number_for_app_def sibling_app_ids_def instance_numbers_of_def
      parse_app_instance_name_def re_app_instance_name_def match_tail_def at_end_def
      is_appid_char_def is_word_char_def is_digit_def is_nonzero_digit_def py_isdigit_def
      py_int_def digit_val_def first_free.simps)

section \<open>Web path conflicts: proofs\<close>

lemma conflicts_loop_filter:
  "conflicts_loop path ignore_app entries =
     map (\<lambda>(p, a). (p, ref_id a, ref_label a))
       (filter (\<lambda>(p, a). Some (ref_id a) \<noteq> ignore_app
                 \<and> (path = p \<or> prefix p path \<or> prefix path p)) entries)"
  by (induction path ignore_app entries rule: conflicts_loop.induct) simp_all

text \<open>
  Claim C3, as the claim has it in its last part: a candidate \<^verbatim>\<open>/blog2\<close> would not
  conflict with a registered \<^verbatim>\<open>/blog\<close>. It does: \<^verbatim>\<open>"/blog2".startswith("/blog")\<close> holds.
\<close>

theorem blog2_conflicts_with_blog:
  "get_conflicting_apps id slash_normal_form [''d.tld'']
     [(''d.tld'', [(''/blog'', \<lparr>ref_id = ''blog'', ref_label = ''Blog''\<rparr>)])]
     ''d.tld'' ''/blog2'' None
   = Inr [(''/blog'', ''blog'', ''Blog'')]"
  by (simp add: get_conflicting_apps_def slash_normal_form_def strip_slashes_def)

text \<open>
  Claim C3, amended. On a known domain, the conflicts are exactly the registered paths of
  that domain, in the order of the map, whose instance is not the ignored one and that
  are equal to the normalised candidate or a string prefix of it, or of which the
  candidate is a string prefix. So \<^verbatim>\<open>/blog\<close> conflicts with a registered \<^verbatim>\<open>/blog/sub\<close> and
  \<^verbatim>\<open>/blog/sub\<close> with a registered \<^verbatim>\<open>/blog\<close>; and \<^verbatim>\<open>/blog2\<close> conflicts with a registered
  \<^verbatim>\<open>/blog\<close> too, while \<^verbatim>\<open>/wiki\<close> does not.
\<close>

theorem conflicting_apps_are_prefix_related:
  "get_conflicting_apps norm_domain norm_path domains registered
       domain path ignore_app =
     (if norm_domain domain \<notin> set domains
      then Inl (YunohostValidationError ''domain_name_unknown'')
      else Inr (map (\<lambda>(p, a). (p, ref_id a, ref_label a))
             (filter (\<lambda>(p, a). Some (ref_id a) \<noteq> ignore_app
                        \<and> (norm_path path = p \<or> prefix p (norm_path path)
                             \<or> prefix (norm_path path) p))
                (case map_of registered (norm_domain domain) of
                   None \<Rightarrow> [] | Some entries \<Rightarrow> entries))))
   \<and> get_conflicting_apps id slash_normal_form [''d.tld'']
        [(''d.tld'', [(''/blog/sub'', \<lparr>ref_id = ''sub'', ref_label = ''Sub''\<rparr>)])]
        ''d.tld'' ''/blog'' None = Inr [(''/blog/sub'', ''sub'', ''Sub'')]
   \<and> get_conflicting_apps id slash_normal_form [''d.tld'']
        [(''d.tld'', [(''/blog'', \<lparr>ref_id = ''blog'', ref_label = ''Blog''\<rparr>)])]
        ''d.tld'' ''/blog/sub'' None = Inr [(''/blog'', ''blog'', ''Blog'')]
   \<and> get_conflicting_apps id slash_normal_form [''d.tld'']
        [(''d.tld'', [(''/blog'', \<lparr>ref_id = ''blog'', ref_label = ''Blog''\<rparr>)])]
        ''d.tld'' ''/blog2'' None = Inr [(''/blog'', ''blog'', ''Blog'')]
   \<and> get_conflicting_apps id slash_normal_form [''d.tld'']
        [(''d.tld'', [(''/blog'', \<lparr>ref_id = ''blog'', ref_label = ''Blog''\<rparr>)])]
        ''d.tld'' ''/wiki'' None = Inr []"
proof -
  have general: "get_conflicting_apps norm_domain norm_path domains registered
       domain path ignore_app =
     (if norm_domain domain \<notin> set domains
      then Inl (YunohostValidationError ''domain_name_unknown'')
      else Inr (map (\<lambda>(p, a). (p, ref_id a, ref_label a))
             (filter (\<lambda>(p, a). Some (ref_id a) \<noteq> ignore_app
                        \<and> (norm_path path = p \<or> prefix p (norm_path path)
                             \<or> prefix (norm_path path) p))
                (case map_of registered (norm_domain domain) of
                   None \<Rightarrow> [] | Some entries \<Rightarrow> entries))))"
    by (simp add: get_conflicting_apps_def Let_def conflicts_loop_filter split: option.splits)
  have e1: "get_conflicting_apps id slash_normal_form [''d.tld'']
        [(''d.tld'', [(''/blog/sub'', \<lparr>ref_id = ''sub'', ref_label = ''Sub''\<rparr>)])]
        ''d.tld'' ''/blog'' None = Inr [(''/blog/sub'', ''sub'', ''Sub'')]"
    by (simp add: get_conflicting_apps_def slash_normal_form_def strip_slashes_def)
  have e2: "get_conflicting_apps id slash_normal_form [''d.tld'']
        [(''d.tld'', [(''/blog'', \<lparr>ref_id = ''blog'', ref_label = ''Blog''\<rparr>)])]
        ''d.tld'' ''/blog/sub'' None = Inr [(''/blog'', ''blog'', ''Blog'')]"
    by (simp add: get_conflicting_apps_def slash_normal_form_def strip_slashes_def)
  have e3: "get_conflicting_apps id slash_normal_form [''d.tld'']
        [(''d.tld'', [(''/blog'', \<lparr>ref_id = ''blog'', ref_label = ''Blog''\<rparr>)])]
        ''d.tld'' ''/blog2'' None = Inr [(''/blog'', ''blog'', ''Blog'')]"
    by (simp add: get_conflicting_apps_def slash_normal_form_def strip_slashes_def)
  have e4: "get_conflicting_apps id slash_normal_form [''d.tld'']
        [(''d.tld'', [(''/blog'', \<lparr>ref_id = ''blog'', ref_label = ''Blog''\<rparr>)])]
        ''d.tld'' ''/wiki'' None = Inr []"
    by (simp add: get_conflicting_apps_def slash_normal_form_def strip_slashes_def)
  from general e1 e2 e3 e4 show ?thesis by blast
qed

theorem conflicting_apps_are_prefix_related_witness:
  "get_conflicting_apps id slash_normal_form [''d.tld'', ''e.tld'']
     [(''d.tld'', [(''/blog'', \<lparr>ref_id = ''blog'', ref_label = ''Blog''\<rparr>),
                   (''/wiki'', \<lparr>ref_id = ''wiki'', ref_label = ''Wiki''\<rparr>),
                   (''/blog/sub'', \<lparr>ref_id = ''sub'', ref_label = ''Sub''\<rparr>)])]
     ''d.tld'' ''blog/'' (Some ''sub'')
   = Inr [(''/blog'', ''blog'', ''Blog'')]
   \<and> get_conflicting_apps id slash_normal_form [''d.tld'', ''e.tld'']
     [(''d.tld'', [(''/blog'', \<lparr>ref_id = ''blog'', ref_label = ''Blog''\<rparr>)])]
     ''x.tld'' ''/blog'' None
   = Inl (YunohostValidationError ''domain_name_unknown'')"
  using conflicting_apps_are_prefix_related
      [of id slash_normal_form "[''d.tld'', ''e.tld'']"
          "[(''d.tld'', [(''/blog'', \<lparr>ref_id = ''blog'', ref_label = ''Blog''\<rparr>),
                   (''/wiki'', \<lparr>ref_id = ''wiki'', ref_label = ''Wiki''\<rparr>),
                   (''/blog/sub'', \<lparr>ref_id = ''sub'', ref_label = ''Sub''\<rparr>)])]"
          "''d.tld''" "''blog/''" "Some ''sub''"]
    conflicting_apps_are_prefix_related
      [of id slash_normal_form "[''d.tld'', ''e.tld'']"
          "[(''d.tld'', [(''/blog'', \<lparr>ref_id = ''blog'', ref_label = ''Blog''\<rparr>)])]"
          "''x.tld''" "''/blog''" None]
  by (simp add: slash_normal_form_def strip_slashes_def)

section \<open>Manifest questions: proofs\<close>

text \<open>The questions of every script other than \<^verbatim>\<open>install\<close> are returned as they are.\<close>

lemma set_default_ask_questions_other_scripts:
  "set_default_ask_questions m18n arguments = Inr arguments' \<Longrightarrow>
   script_name \<noteq> ''install'' \<Longrightarrow>
   (script_name, arg_list) \<in> set arguments' \<longleftrightarrow> (script_name, arg_list) \<in> set arguments"
proof (induction arguments arbitrary: arguments')
  case Nil
  then show ?case by simp
next
  case (Cons x arguments)
  obtain s l where x: "x = (s, l)" by (cases x)
  from Cons.prems x obtain rest where rest: "set_default_ask_questions m18n arguments = Inr rest"
    by (auto split: if_splits sum.splits)
  from Cons.IH[OF rest Cons.prems(2)] Cons.prems x rest show ?case
    by (auto split: if_splits sum.splits)
qed

text \<open>Without a \<^verbatim>\<open>default\<close>, the \<^verbatim>\<open>example\<close> of a domain, user or password question goes.\<close>

lemma fill_default_ask_other_keys:
  "k \<noteq> ''ask'' \<Longrightarrow> map_of (fill_default_ask m18n script_name name arg) k = map_of arg k"
  by (simp add: fill_default_ask_def update_conv')

lemma strip_example_without_default:
  assumes "map_of arg ''type'' \<in> Some ` YStr ` {''domain'', ''user'', ''password''}"
    and "map_of arg ''default'' = None"
  shows "\<exists>arg'. strip_example_and_default arg = Inr arg'
            \<and> map_of arg' ''example'' = None \<and> map_of arg' ''default'' = None"
proof (cases "map_of arg ''example''")
  case None
  with assms show ?thesis by (simp add: strip_example_and_default_def)
next
  case (Some v)
  with assms show ?thesis by (simp add: strip_example_and_default_def delete_conv')
qed

lemma set_default_ask_question_strips_example:
  assumes "map_of arg ''type'' \<in> Some ` YStr ` {''domain'', ''user'', ''password''}"
    and "map_of arg ''name'' \<noteq> None" and "map_of arg ''default'' = None"
  shows "\<exists>arg'. set_default_ask_question m18n ''install'' arg = Inr arg'
            \<and> map_of arg' ''example'' = None \<and> map_of arg' ''default'' = None"
proof -
  from assms(2) obtain name where name: "map_of arg ''name'' = Some name" by auto
  have "map_of (fill_default_ask m18n ''install'' name arg) ''type''
          \<in> Some ` YStr ` {''domain'', ''user'', ''password''}"
    and "map_of (fill_default_ask m18n ''install'' name arg) ''default'' = None"
    using assms(1,3) by (simp_all add: fill_default_ask_other_keys)
  from strip_example_without_default[OF this] name show ?thesis
    by (simp add: set_default_ask_question_def)
qed

text \<open>
  Claim C6. The \<^verbatim>\<open>example\<close> and the \<^verbatim>\<open>default\<close> of a domain, user or password question of
  the install script should be stripped. When a \<^verbatim>\<open>default\<close> is present the code runs
  \<^verbatim>\<open>del arg["domain"]\<close>: on a question without a key \<^verbatim>\<open>domain\<close> this raises \<^verbatim>\<open>KeyError\<close>, and
  on a question that has one the key \<^verbatim>\<open>domain\<close> goes and the \<^verbatim>\<open>default\<close> stays.
\<close>

theorem default_is_not_stripped:
  "set_default_ask_questions id
     [(''install'', [[(''name'', YStr ''domain''), (''type'', YStr ''domain''),
                       (''example'', YStr ''example.com''), (''default'', YStr ''my.tld'')]])]
   = Inl (KeyError ''domain'')
   \<and> set_default_ask_questions id
     [(''install'', [[(''name'', YStr ''admin''), (''type'', YStr ''user''),
                       (''default'', YStr ''alice''), (''domain'', YStr ''kept?'')]])]
   = Inr [(''install'', [[(''name'', YStr ''admin''), (''type'', YStr ''user''),
                           (''default'', YStr ''alice''),
                           (''ask'', YStr ''app_manifest_install_ask_admin'')]])]"
  by (simp add: set_default_ask_question_def fill_default_ask_def strip_example_and_default_def
      questions_with_default_def py_del_def)

section \<open>Version classification: proofs\<close>






text \<open>The other classifications of the spec's examples.\<close>

lemma classify_upgrade_examples:
  "classify_upgrade version_key ''1.0~ynh1'' ''1.0~ynh2'' False = Inr (RunUpgrade UPGRADE_PACKAGE)"
  "classify_upgrade version_key ''1.0~ynh1'' ''2.0~ynh1'' False = Inr (RunUpgrade UPGRADE_APP)"
  "classify_upgrade version_key ''1.0~ynh1'' ''2.0~ynh2'' False = Inr (RunUpgrade UPGRADE_FULL)"
  "classify_upgrade version_key ''1.0~ynh1'' ''1.0~ynh1'' True = Inr (RunUpgrade UPGRADE_FORCED)"
  "classify_upgrade version_key ''1.0'' ''1.0~ynh1'' False = Inr (RunUpgrade UNKNOWN)"
  by (simp_all add: classify_upgrade_def version_key_def is_digit_def is_alpha_def digit_val_def)

section \<open>The App Record Store: proofs\<close>

lemma suffix_slash_iff: "suffix ''/'' s \<longleftrightarrow> s \<noteq> [] \<and> last s = CHR ''/''"
proof
  assume "suffix ''/'' s"
  then obtain u where "s = u @ ''/''" by (auto simp: suffix_def)
  then show "s \<noteq> [] \<and> last s = CHR ''/''" by simp
next
  assume a: "s \<noteq> [] \<and> last s = CHR ''/''"
  then have "s = butlast s @ ''/''" using append_butlast_last_id[of s] by simp
  then show "suffix ''/'' s" unfolding suffix_def by blast
qed

lemma strip_slashes_last:
  assumes "strip_slashes p \<noteq> []"
  shows "last (strip_slashes p) \<noteq> CHR ''/''"
proof -
  let ?q = "dropWhile (\<lambda>c. c = CHR ''/'') (rev (dropWhile (\<lambda>c. c = CHR ''/'') p))"
  from assms have ne: "?q \<noteq> []" by (simp add: strip_slashes_def)
  from hd_dropWhile[OF ne] have "hd ?q \<noteq> CHR ''/''" by simp
  then show ?thesis by (simp add: strip_slashes_def last_rev)
qed

lemma slash_normal_form_settled: "\<not> path_needs_fix (slash_normal_form p)"
proof (cases "strip_slashes p = []")
  case True
  then show ?thesis by (simp add: path_needs_fix_def slash_normal_form_def)
next
  case False
  with strip_slashes_last[OF False] show ?thesis
    by (simp add: path_needs_fix_def slash_normal_form_def suffix_slash_iff)
qed

subsection \<open>Reading and writing the record\<close>

lemma set_app_settings_installed:
  assumes "is_installed w app"
  shows "set_app_settings app s w = (Inr (), w\<lparr>app_dirs := AList.update app (Some s) (app_dirs w)\<rparr>)"
  using assms by (simp add: set_app_settings_def)

lemma get_app_settings_settled:
  assumes "map_of (app_dirs w) app = Some (Some settings)"
    and "case map_of settings ''path'' of
           None \<Rightarrow> True | Some (YStr p) \<Rightarrow> \<not> path_needs_fix p | Some other \<Rightarrow> False"
  shows "get_app_settings app w
           = (Inr (if map_of settings ''id'' = Some (YStr app) then settings else []), w)"
proof (cases "map_of settings ''path''")
  case None
  with assms(1) show ?thesis by (simp add: get_app_settings_def)
next
  case (Some v)
  with assms(2) obtain p where v: "v = YStr p" and np: "\<not> path_needs_fix p"
    by (cases v) simp_all
  with Some assms(1) show ?thesis by (simp add: get_app_settings_def)
qed

lemma get_app_settings_fixing:
  assumes "map_of (app_dirs w) app = Some (Some settings)"
    and "map_of settings ''path'' = Some (YStr p)" and "path_needs_fix p"
  shows "get_app_settings app w
           = (Inr (if map_of settings ''id'' = Some (YStr app)
                   then AList.update ''path'' (YStr (slash_normal_form p)) settings else []),
              w\<lparr>app_dirs := AList.update app
                   (Some (AList.update ''path'' (YStr (slash_normal_form p)) settings))
                   (app_dirs w)\<rparr>)"
  using assms
  by (simp add: get_app_settings_def Let_def set_app_settings_def is_installed_def update_conv')

lemma fix_path_settled:
  assumes "case map_of settings ''path'' of
             None \<Rightarrow> True | Some (YStr p) \<Rightarrow> True | Some other \<Rightarrow> False"
  shows "case map_of (fix_path settings) ''path'' of
           None \<Rightarrow> True | Some (YStr p) \<Rightarrow> \<not> path_needs_fix p | Some other \<Rightarrow> False"
proof (cases "map_of settings ''path''")
  case None
  then show ?thesis by (simp add: fix_path_def)
next
  case (Some v)
  with assms obtain p where v: "v = YStr p" by (cases v) simp_all
  show ?thesis
  proof (cases "path_needs_fix p")
    case True
    with Some v show ?thesis by (simp add: fix_path_def update_conv' slash_normal_form_settled)
  next
    case False
    with Some v show ?thesis by (simp add: fix_path_def)
  qed
qed

lemma fix_path_other_keys: "k \<noteq> ''path'' \<Longrightarrow> map_of (fix_path settings) k = map_of settings k"
proof (cases "map_of settings ''path''")
  case None
  then show ?thesis by (simp add: fix_path_def)
next
  case (Some v)
  assume "k \<noteq> ''path''"
  with Some show ?thesis by (cases v) (simp_all add: fix_path_def update_conv')
qed

text \<open>
  Reading a well-formed record gives the settings with the path in normal form, and
  leaves them stored so.
\<close>

lemma get_app_settings_well_formed:
  assumes "map_of (app_dirs w) app = Some (Some settings)"
    and "map_of settings ''id'' = Some (YStr app)"
    and "case map_of settings ''path'' of
           None \<Rightarrow> True | Some (YStr p) \<Rightarrow> True | Some other \<Rightarrow> False"
  shows "fst (get_app_settings app w) = Inr (fix_path settings)
    \<and> map_of (app_dirs (snd (get_app_settings app w))) app = Some (Some (fix_path settings))"
proof (cases "map_of settings ''path''")
  case None
  then have "get_app_settings app w = (Inr settings, w)"
    using get_app_settings_settled[OF assms(1)] assms(2) by simp
  with None assms(1) show ?thesis by (simp add: fix_path_def)
next
  case (Some v)
  with assms(3) obtain p where v: "v = YStr p" by (cases v) simp_all
  show ?thesis
  proof (cases "path_needs_fix p")
    case True
    from get_app_settings_fixing[OF assms(1) _ True] Some v assms(2) True
    show ?thesis by (simp add: fix_path_def update_conv')
  next
    case False
    with Some v have "get_app_settings app w = (Inr settings, w)"
      using get_app_settings_settled[OF assms(1)] assms(2) by simp
    with Some v False assms(1) show ?thesis by (simp add: fix_path_def)
  qed
qed

lemma app_setting_set_regular:
  assumes "map_of (app_dirs w) app = Some (Some settings)"
    and "map_of settings ''id'' = Some (YStr app)"
    and "case map_of settings ''path'' of
           None \<Rightarrow> True | Some (YStr p) \<Rightarrow> True | Some other \<Rightarrow> False"
    and "\<not> is_legacy_permission_setting key"
    and "key \<notin> {''redirected_urls'', ''redirected_regex''}"
    and "value \<noteq> YNull"
  shows "fst (app_setting Y L app key value False w) = Inr YNull
    \<and> map_of (app_dirs (snd (app_setting Y L app key value False w))) app
        = Some (Some (AList.update key value (fix_path settings)))"
proof -
  obtain r w1 where g: "get_app_settings app w = (r, w1)" by (cases "get_app_settings app w")
  with get_app_settings_well_formed[OF assms(1-3)]
  have r: "r = Inr (fix_path settings)"
    and s1: "map_of (app_dirs w1) app = Some (Some (fix_path settings))" by simp_all
  from s1 have inst: "is_installed w1 app" by (simp add: is_installed_def)
  from g r assms(4-6) show ?thesis
    by (simp add: app_setting_def set_app_settings_installed[OF inst] update_conv')
qed

lemma app_setting_delete_regular:
  assumes "map_of (app_dirs w) app = Some (Some settings)"
    and "map_of settings ''id'' = Some (YStr app)"
    and "case map_of settings ''path'' of
           None \<Rightarrow> True | Some (YStr p) \<Rightarrow> True | Some other \<Rightarrow> False"
    and "\<not> is_legacy_permission_setting key"
  shows "fst (app_setting Y L app key value True w) = Inr YNull
    \<and> map_of (app_dirs (snd (app_setting Y L app key value True w))) app
        = Some (Some (AList.delete key (fix_path settings)))"
proof -
  obtain r w1 where g: "get_app_settings app w = (r, w1)" by (cases "get_app_settings app w")
  with get_app_settings_well_formed[OF assms(1-3)]
  have r: "r = Inr (fix_path settings)"
    and s1: "map_of (app_dirs w1) app = Some (Some (fix_path settings))" by simp_all
  from s1 have inst: "is_installed w1 app" by (simp add: is_installed_def)
  from g r assms(4) show ?thesis
    by (simp add: app_setting_def set_app_settings_installed[OF inst] update_conv')
qed

lemma app_setting_get_regular:
  assumes "map_of (app_dirs w) app = Some (Some settings)"
    and "case map_of settings ''path'' of
           None \<Rightarrow> True | Some (YStr p) \<Rightarrow> \<not> path_needs_fix p | Some other \<Rightarrow> False"
    and "\<not> is_legacy_permission_setting key"
  shows "app_setting Y L app key YNull False w
           = (Inr (if map_of settings ''id'' = Some (YStr app)
                   then (case map_of settings key of Some v \<Rightarrow> v | None \<Rightarrow> YNull)
                   else YNull), w)"
  using get_app_settings_settled[OF assms(1,2)] assms(3)
  by (simp add: app_setting_def)

subsection \<open>Round trip\<close>

text \<open>
  Claim C9, as stated, for every key: reading back after a write would return the value
  written. Three writes to the record of \<^verbatim>\<open>foo\<close> that do not read back: a path with a
  trailing slash is read back normalised; after the \<^verbatim>\<open>id\<close> is overwritten the record
  reads as empty; a legacy permission key is not stored in the record at all, and with
  the value \<^verbatim>\<open>/\<close> it changes the main permission, so reading it gives \<^verbatim>\<open>None\<close>.
\<close>

theorem setting_not_read_back:
  "fst (app_setting Inr (@) ''foo'' ''path'' YNull False
          (snd (app_setting Inr (@) ''foo'' ''path'' (YStr ''/wiki/'') False example_world)))
     = Inr (YStr ''/wiki'')
   \<and> fst (app_setting Inr (@) ''foo'' ''id'' YNull False
          (snd (app_setting Inr (@) ''foo'' ''id'' (YStr ''bar'') False example_world)))
     = Inr YNull
   \<and> fst (app_setting Inr (@) ''foo'' ''unprotected_uris'' YNull False
          (snd (app_setting Inr (@) ''foo'' ''unprotected_uris'' (YStr ''/'') False example_world)))
     = Inr YNull"
  by (simp add: app_setting_def get_app_settings_def set_app_settings_def is_installed_def
      example_world_def path_needs_fix_def suffix_slash_iff slash_normal_form_def
      strip_slashes_def is_legacy_permission_setting_def legacy_permission_setting_def
      legacy_permission_name_def user_permission_list_of_def user_permission_update_add_def
      permission_url_set_def Let_def)

lemma legacy_permission_setting_app_dirs:
  "app_dirs (snd (legacy_permission_setting L app_settings app key value delete w)) = app_dirs w"
  by (simp add: legacy_permission_setting_def Let_def permission_create_def
      permission_delete_def user_permission_update_add_def user_permission_update_remove_def
      permission_url_set_def permission_url_clear_def permission_url_add_def
      split: option.split yval.split)

lemma get_app_settings_nothing_pending:
  assumes "\<not> path_fix_pending w app"
  shows "snd (get_app_settings app w) = w"
  using assms
  by (simp add: get_app_settings_def path_fix_pending_def split: option.splits yval.splits)

lemma legacy_name_prefixed: "prefix (app @ ''.'') (legacy_permission_name app key)"
  by (simp add: legacy_permission_name_def)

lemma map_of_filter_prefixed:
  assumes "prefix (app @ ''.'') name"
  shows "map_of (filter (\<lambda>(n, p). prefix (app @ ''.'') n) al) name = map_of al name"
  using assms by (induction al) auto

lemma user_permission_list_of_lookup:
  "map_of (user_permission_list_of w app) (legacy_permission_name app key)
     = map_of (permissions w) (legacy_permission_name app key)"
  unfolding user_permission_list_of_def
  by (rule map_of_filter_prefixed) (rule legacy_name_prefixed)

lemma map_of_map_entry_None:
  "map_of (AList.map_entry k f al) name = None \<longleftrightarrow> map_of al name = None"
  by (induction al) auto

text \<open>Reading the settings a second time succeeds when the first time did.\<close>

lemma get_app_settings_again:
  assumes "fst (get_app_settings app w) = Inr S"
    and "app_dirs w' = app_dirs (snd (get_app_settings app w))"
  shows "\<exists>S'. get_app_settings app w' = (Inr S', w')"
proof (cases "map_of (app_dirs w) app")
  case None
  with assms(1) show ?thesis by (simp add: get_app_settings_def)
next
  case (Some f)
  show ?thesis
  proof (cases f)
    case None
    with Some assms show ?thesis by (simp add: get_app_settings_def)
  next
    case (Some settings)
    note st = \<open>map_of (app_dirs w) app = Some f\<close>[unfolded Some]
    show ?thesis
    proof (cases "map_of settings ''path''")
      case None
      with st have "get_app_settings app w
          = (Inr (if map_of settings ''id'' = Some (YStr app) then settings else []), w)"
        using get_app_settings_settled[OF st] by simp
      with assms(2) st have "map_of (app_dirs w') app = Some (Some settings)" by simp
      from get_app_settings_settled[OF this] None show ?thesis by simp
    next
      case (Some v)
      with st assms(1) obtain p where v: "v = YStr p"
        by (cases v) (simp_all add: get_app_settings_def)
      show ?thesis
      proof (cases "path_needs_fix p")
        case True
        let ?S = "AList.update ''path'' (YStr (slash_normal_form p)) settings"
        from get_app_settings_fixing[OF st _ True] Some v assms(2)
        have "map_of (app_dirs w') app = Some (Some ?S)" by (simp add: update_conv')
        from get_app_settings_settled[OF this] show ?thesis
          by (simp add: update_conv' slash_normal_form_settled)
      next
        case False
        with Some v st have "get_app_settings app w
          = (Inr (if map_of settings ''id'' = Some (YStr app) then settings else []), w)"
          using get_app_settings_settled[OF st] by simp
        with assms(2) st have "map_of (app_dirs w') app = Some (Some settings)" by simp
        from get_app_settings_settled[OF this] Some v False show ?thesis by simp
      qed
    qed
  qed
qed

text \<open>
  After the deletion of a legacy permission setting that did not raise, the legacy
  permission is not in the directory.
\<close>

lemma legacy_delete_removes_permission:
  assumes "fst (legacy_permission_setting L S app key value True w) = Inr r"
  shows "map_of (permissions (snd (legacy_permission_setting L S app key value True w)))
           (legacy_permission_name app key) = None"
proof -
  let ?name = "legacy_permission_name app key"
  let ?wm = "user_permission_update_remove (app @ ''.main'') ''visitors'' w"
  have pm: "map_of (permissions ?wm) ?name = None \<longleftrightarrow> map_of (permissions w) ?name = None"
    by (simp add: user_permission_update_remove_def map_of_map_entry_None)
  have del: "map_of (permissions (permission_delete ?name x)) ?name = None" for x
    by (simp add: permission_delete_def delete_conv')
  have cases: "snd (legacy_permission_setting L S app key value True w)
        \<in> {if map_of (permissions w) ?name \<noteq> None then permission_delete ?name w else w,
            if map_of (permissions w) ?name \<noteq> None then permission_delete ?name ?wm else ?wm}"
    using assms
    by (simp add: legacy_permission_setting_def Let_def user_permission_list_of_lookup
        split: option.splits if_splits)
  then show ?thesis using pm del by (auto split: if_splits)
qed

lemma legacy_get_absent:
  assumes "is_legacy_permission_setting key"
    and "fst (get_app_settings app w) = Inr S"
    and "map_of (permissions (snd (get_app_settings app w))) (legacy_permission_name app key) = None"
  shows "fst (app_setting Y L app key YNull False w) = Inr YNull"
proof -
  obtain w1 where g: "get_app_settings app w = (Inr S, w1)"
    using assms(2) by (cases "get_app_settings app w") simp
  with assms(3) have "map_of (permissions w1) (legacy_permission_name app key) = None" by simp
  with g assms(1) show ?thesis
    by (simp add: app_setting_def legacy_permission_setting_def Let_def
        user_permission_list_of_lookup)
qed

lemma get_app_settings_permissions:
  "permissions (snd (get_app_settings app w)) = permissions w"
  by (simp add: get_app_settings_def Let_def set_app_settings_def
      split: option.split yval.split)

lemma legacy_delete_then_get:
  assumes "is_legacy_permission_setting key"
    and "fst (app_setting Y L app key value True w) = Inr r"
  shows "fst (app_setting Y L app key YNull False
                (snd (app_setting Y L app key value True w))) = Inr YNull"
proof -
  obtain g w1 where g: "get_app_settings app w = (g, w1)" by (cases "get_app_settings app w")
  with assms obtain S where S: "g = Inr S"
    by (cases g) (simp_all add: app_setting_def)
  let ?d = "legacy_permission_setting L S app key value True w1"
  from g S assms(1) have eq: "app_setting Y L app key value True w = ?d"
    by (simp add: app_setting_def)
  with assms(2) have ok: "fst ?d = Inr r" by simp
  have dirs: "app_dirs (snd ?d) = app_dirs (snd (get_app_settings app w))"
    using g by (simp add: legacy_permission_setting_app_dirs)
  from g S have "fst (get_app_settings app w) = Inr S" by simp
  from get_app_settings_again[OF this dirs] obtain S' where
    again: "get_app_settings app (snd ?d) = (Inr S', snd ?d)" by blast
  have "map_of (permissions (snd (get_app_settings app (snd ?d))))
          (legacy_permission_name app key) = None"
    using legacy_delete_removes_permission[OF ok] again by simp
  from legacy_get_absent[OF assms(1) _ this, of S' Y L] again show ?thesis
    by (simp add: eq)
qed

text \<open>
  Claim C9, amended. For an installed app whose record is well formed: for every key and
  value that are stored as given (the key is no legacy permission setting and is not
  \<^verbatim>\<open>redirected_urls\<close> or \<^verbatim>\<open>redirected_regex\<close>, the value is not \<^verbatim>\<open>None\<close>, under \<^verbatim>\<open>id\<close> it is the
  instance id and under \<^verbatim>\<open>path\<close> a path in normal form), get-setting right after
  set-setting returns the value that was set; for every key that is no legacy permission
  setting, get-setting right after delete-setting returns \<^verbatim>\<open>None\<close>; and for a legacy
  permission setting, get-setting right after a delete-setting that did not raise returns
  \<^verbatim>\<open>None\<close>.
\<close>

theorem setting_round_trip:
  assumes "well_formed_record w app"
  shows "(stored_as_given app key value \<longrightarrow>
            fst (app_setting Y L app key value False w) = Inr YNull
            \<and> fst (app_setting Y L app key YNull False
                      (snd (app_setting Y L app key value False w))) = Inr value)
       \<and> (\<not> is_legacy_permission_setting key \<longrightarrow>
            fst (app_setting Y L app key value True w) = Inr YNull
            \<and> fst (app_setting Y L app key YNull False
                      (snd (app_setting Y L app key value True w))) = Inr YNull)
       \<and> (is_legacy_permission_setting key
            \<and> fst (app_setting Y L app key value True w) = Inr YNull \<longrightarrow>
            fst (app_setting Y L app key YNull False
                   (snd (app_setting Y L app key value True w))) = Inr YNull)"
proof -
  from assms obtain settings where st: "map_of (app_dirs w) app = Some (Some settings)"
    and sid: "map_of settings ''id'' = Some (YStr app)"
    and sp: "case map_of settings ''path'' of
               None \<Rightarrow> True | Some (YStr p) \<Rightarrow> True | Some other \<Rightarrow> False"
    by (auto simp: well_formed_record_def split: option.splits)
  note settled = fix_path_settled[OF sp]
  have fid: "map_of (fix_path settings) ''id'' = Some (YStr app)"
    using sid by (simp add: fix_path_other_keys)
  have set_part: "fst (app_setting Y L app key value False w) = Inr YNull
            \<and> fst (app_setting Y L app key YNull False
                      (snd (app_setting Y L app key value False w))) = Inr value"
    if sg: "stored_as_given app key value"
  proof -
    from sg have nl: "\<not> is_legacy_permission_setting key"
      and nr: "key \<notin> {''redirected_urls'', ''redirected_regex''}" and nn: "value \<noteq> YNull"
      by (simp_all add: stored_as_given_def)
    let ?w1 = "snd (app_setting Y L app key value False w)"
    let ?S1 = "AList.update key value (fix_path settings)"
    from app_setting_set_regular[OF st sid sp nl nr nn, of Y L]
    have r1: "fst (app_setting Y L app key value False w) = Inr YNull"
      and s1: "map_of (app_dirs ?w1) app = Some (Some ?S1)" by simp_all
    have p1: "case map_of ?S1 ''path'' of
                None \<Rightarrow> True | Some (YStr p) \<Rightarrow> \<not> path_needs_fix p | Some other \<Rightarrow> False"
    proof (cases "key = ''path''")
      case True
      with sg show ?thesis by (cases "value") (simp_all add: stored_as_given_def update_conv')
    next
      case False
      with settled show ?thesis by (simp add: update_conv')
    qed
    have i1: "map_of ?S1 ''id'' = Some (YStr app)"
    proof (cases "key = ''id''")
      case True
      with sg show ?thesis by (simp add: stored_as_given_def update_conv')
    next
      case False
      with fid show ?thesis by (simp add: update_conv')
    qed
    from app_setting_get_regular[OF s1 p1 nl, of Y L] i1
    have "fst (app_setting Y L app key YNull False ?w1) = Inr value"
      by (simp add: update_conv')
    with r1 show ?thesis by simp
  qed
  have delete_part: "fst (app_setting Y L app key value True w) = Inr YNull
            \<and> fst (app_setting Y L app key YNull False
                      (snd (app_setting Y L app key value True w))) = Inr YNull"
    if nl: "\<not> is_legacy_permission_setting key"
  proof -
    let ?w1 = "snd (app_setting Y L app key value True w)"
    let ?S1 = "AList.delete key (fix_path settings)"
    from app_setting_delete_regular[OF st sid sp nl, of Y L "value"]
    have r1: "fst (app_setting Y L app key value True w) = Inr YNull"
      and s1: "map_of (app_dirs ?w1) app = Some (Some ?S1)" by simp_all
    have p1: "case map_of ?S1 ''path'' of
                None \<Rightarrow> True | Some (YStr p) \<Rightarrow> \<not> path_needs_fix p | Some other \<Rightarrow> False"
    proof (cases "key = ''path''")
      case True
      then show ?thesis by (simp add: delete_conv')
    next
      case False
      with settled show ?thesis by (simp add: delete_conv')
    qed
    from app_setting_get_regular[OF s1 p1 nl, of Y L]
    have "fst (app_setting Y L app key YNull False ?w1) = Inr YNull"
      by (simp add: delete_conv')
    with r1 show ?thesis by simp
  qed
  have legacy_part: "fst (app_setting Y L app key YNull False
                   (snd (app_setting Y L app key value True w))) = Inr YNull"
    if "is_legacy_permission_setting key"
      and "fst (app_setting Y L app key value True w) = Inr YNull"
    using legacy_delete_then_get[OF that] .
  from set_part delete_part legacy_part show ?thesis by blast
qed

theorem setting_round_trip_witness:
  "fst (app_setting Inr (@) ''foo'' ''admin'' YNull False
          (snd (app_setting Inr (@) ''foo'' ''admin'' (YStr ''alice'') False example_world)))
     = Inr (YStr ''alice'')
   \<and> fst (app_setting Inr (@) ''foo'' ''domain'' YNull False
          (snd (app_setting Inr (@) ''foo'' ''domain'' YNull True example_world)))
     = Inr YNull
   \<and> fst (app_setting Inr (@) ''foo'' ''skipped_uris'' YNull False
          (snd (app_setting Inr (@) ''foo'' ''skipped_uris'' YNull True example_world)))
     = Inr YNull"
proof -
  have wf: "well_formed_record example_world ''foo''"
    by (simp add: well_formed_record_def example_world_def)
  have sg: "stored_as_given ''foo'' ''admin'' (YStr ''alice'')"
    by (simp add: stored_as_given_def is_legacy_permission_setting_def)
  have nl: "\<not> is_legacy_permission_setting ''domain''"
    by (simp add: is_legacy_permission_setting_def)
  have l: "is_legacy_permission_setting ''skipped_uris''"
    by (simp add: is_legacy_permission_setting_def)
  have d: "fst (app_setting Inr (@) ''foo'' ''skipped_uris'' YNull True example_world) = Inr YNull"
    by (simp add: app_setting_def get_app_settings_def set_app_settings_def is_installed_def
      example_world_def path_needs_fix_def suffix_slash_iff slash_normal_form_def
      strip_slashes_def is_legacy_permission_setting_def legacy_permission_setting_def
      legacy_permission_name_def user_permission_list_of_def Let_def)
  from setting_round_trip[OF wf, of "''admin''" "YStr ''alice''" Inr "(@)"] sg
    setting_round_trip[OF wf, of "''domain''" YNull Inr "(@)"] nl
    setting_round_trip[OF wf, of "''skipped_uris''" YNull Inr "(@)"] l d
  show ?thesis by simp
qed

subsection \<open>Legacy permission settings and the record\<close>

text \<open>
  Claim C10, as stated: an operation on a legacy permission key would never modify the
  stored settings. Reading \<^verbatim>\<open>skipped_uris\<close> of \<^verbatim>\<open>foo\<close>, whose stored path is \<^verbatim>\<open>/blog/\<close>, rewrites
  the record with the path \<^verbatim>\<open>/blog\<close>: \<^verbatim>\<open>app_setting\<close> begins with \<^verbatim>\<open>_get_app_settings\<close>, which
  normalises the path and writes the file.
\<close>

theorem legacy_setting_rewrites_unnormalised_path:
  "app_dirs (snd (app_setting Inr (@) ''foo'' ''skipped_uris'' YNull False example_world))
     = [(''foo'', Some [(''id'', YStr ''foo''), (''domain'', YStr ''d.tld''),
                        (''path'', YStr ''/blog'')])]
   \<and> app_dirs (snd (app_setting Inr (@) ''foo'' ''skipped_uris'' YNull False example_world))
     \<noteq> app_dirs example_world"
  by (simp add: app_setting_def get_app_settings_def set_app_settings_def is_installed_def
      example_world_def path_needs_fix_def suffix_slash_iff slash_normal_form_def
      strip_slashes_def is_legacy_permission_setting_def legacy_permission_setting_def
      legacy_permission_name_def user_permission_list_of_def Let_def)

text \<open>
  Claim C10, amended. For every key that begins with \<^verbatim>\<open>unprotected_\<close>, \<^verbatim>\<open>protected_\<close> or
  \<^verbatim>\<open>skipped_\<close>, the get, set or delete operation is routed to the permission system and
  returns before the settings-write step of \<^verbatim>\<open>app_setting\<close>: the stored records after the
  operation are those that reading the settings leaves. The only change to the record is
  therefore the normalisation of a stored path when the settings are read; when no such
  normalisation is pending, no record is modified.
\<close>

theorem legacy_setting_leaves_record:
  assumes "is_legacy_permission_setting key"
  shows "app_dirs (snd (app_setting Y L app key value delete w))
           = app_dirs (snd (get_app_settings app w))
       \<and> (\<not> path_fix_pending w app \<longrightarrow>
            app_dirs (snd (app_setting Y L app key value delete w)) = app_dirs w)"
proof -
  obtain r w1 where g: "get_app_settings app w = (r, w1)" by (cases "get_app_settings app w")
  have "app_dirs (snd (app_setting Y L app key value delete w)) = app_dirs w1"
  proof (cases r)
    case (Inl e)
    with g show ?thesis by (simp add: app_setting_def)
  next
    case (Inr app_settings)
    with g assms show ?thesis
      by (simp add: app_setting_def legacy_permission_setting_app_dirs)
  qed
  with g get_app_settings_nothing_pending[of w app] show ?thesis by auto
qed

theorem legacy_setting_leaves_record_witness:
  "app_dirs (snd (app_setting Inr (@) ''foo'' ''protected_uris'' (YStr ''/admin'') False
                    (example_world\<lparr>app_dirs := [(''foo'', Some [(''id'', YStr ''foo'')])]\<rparr>)))
     = [(''foo'', Some [(''id'', YStr ''foo'')])]"
proof -
  have l: "is_legacy_permission_setting ''protected_uris''"
    by (simp add: is_legacy_permission_setting_def)
  have np: "\<not> path_fix_pending
              (example_world\<lparr>app_dirs := [(''foo'', Some [(''id'', YStr ''foo'')])]\<rparr>) ''foo''"
    by (simp add: path_fix_pending_def)
  from legacy_setting_leaves_record[OF l, of Inr "(@)" "''foo''" "YStr ''/admin''" False
      "example_world\<lparr>app_dirs := [(''foo'', Some [(''id'', YStr ''foo'')])]\<rparr>",
      THEN conjunct2] np
  show ?thesis by simp
qed

section \<open>Lifecycle operations: proofs of what they share\<close>

lemma delete_permissions_fold:
  "permissions (fold (\<lambda>permission_name w'.
             if P permission_name then permission_delete permission_name w' else w') ns w)
     = filter (\<lambda>(n, p). \<not> (n \<in> set ns \<and> P n)) (permissions w)"
proof (induction ns arbitrary: w)
  case Nil
  then show ?case by simp
next
  case (Cons n ns)
  show ?case
  proof (cases "P n")
    case True
    have "permissions (permission_delete n w) = filter (\<lambda>(k, p). n \<noteq> k) (permissions w)"
      by (simp add: permission_delete_def AList.delete_eq)
    with Cons.IH[of "permission_delete n w"] True show ?thesis
      by (auto intro: filter_cong)
  next
    case False
    with Cons.IH[of w] show ?thesis by (auto intro: filter_cong)
  qed
qed

lemma delete_permissions_fold_frame:
  "app_dirs (fold (\<lambda>permission_name w'.
             if P permission_name then permission_delete permission_name w' else w') ns w)
     = app_dirs w
   \<and> workdirs (fold (\<lambda>permission_name w'.
             if P permission_name then permission_delete permission_name w' else w') ns w)
     = workdirs w
   \<and> trace (fold (\<lambda>permission_name w'.
             if P permission_name then permission_delete permission_name w' else w') ns w)
     = trace w
   \<and> services (fold (\<lambda>permission_name w'.
             if P permission_name then permission_delete permission_name w' else w') ns w)
     = services w
   \<and> dpkg_broken (fold (\<lambda>permission_name w'.
             if P permission_name then permission_delete permission_name w' else w') ns w)
     = dpkg_broken w"
  by (induction ns arbitrary: w) (simp_all add: permission_delete_def)

lemma delete_permissions_of_none_left:
  "\<forall>name \<in> fst ` set (permissions (delete_permissions_of app w)). \<not> prefix (app @ ''.'') name"
  unfolding delete_permissions_of_def delete_permissions_fold by force

lemma delete_permissions_of_frame:
  "app_dirs (delete_permissions_of app w) = app_dirs w"
  "workdirs (delete_permissions_of app w) = workdirs w"
  "trace (delete_permissions_of app w) = trace w"
  unfolding delete_permissions_of_def using delete_permissions_fold_frame by blast+

lemma assert_system_is_sane_frame:
  "app_dirs (snd (assert_system_is_sane_for_app m when w)) = app_dirs w"
  "permissions (snd (assert_system_is_sane_for_app m when w)) = permissions w"
  "workdirs (snd (assert_system_is_sane_for_app m when w)) = workdirs w"
  "trace (snd (assert_system_is_sane_for_app m when w)) = trace w @ [SanityCheck when (m_name m)]"
  "fst (assert_system_is_sane_for_app m when w) = system_sanity_error m when w"
  by (simp_all add: assert_system_is_sane_for_app_def)

lemma run_hook_trace:
  "trace (snd (run_hook E path app args env_dict w)) = trace w @ [ScriptRun path app]"
  by (simp add: run_hook_def split: prod.splits)


lemma remove_script_and_permissions_facts:
  "\<forall>name \<in> fst ` set (permissions (remove_script_and_permissions E ctx ed w)).
      \<not> prefix (ctx_instance ctx @ ''.'') name"
  "\<exists>rest. trace (remove_script_and_permissions E ctx ed w)
            = trace w @ ScriptRun (ctx_folder ctx @ ''/scripts/remove'') (ctx_instance ctx) # rest"
proof -
  let ?inst = "ctx_instance ctx"
  let ?path = "ctx_folder ctx @ ''/scripts/remove''"
  obtain r w1 where h: "run_hook E ?path ?inst [?inst] ed w = (r, w1)"
    by (cases "run_hook E ?path ?inst [?inst] ed w")
  from run_hook_trace[of E ?path ?inst "[?inst]" ed w] h
  have t1: "trace w1 = trace w @ [ScriptRun ?path ?inst]" by simp
  let ?w2 = "delete_permissions_of ?inst w1"
  have eq: "remove_script_and_permissions E ctx ed w = ?w2
      \<or> remove_script_and_permissions E ctx ed w
           = snd (assert_system_is_sane_for_app (ctx_manifest ctx) ''post'' ?w2)"
    using h by (simp add: remove_script_and_permissions_def Let_def)
  have none: "\<forall>name \<in> fst ` set (permissions ?w2). \<not> prefix (?inst @ ''.'') name"
    by (rule delete_permissions_of_none_left)
  from eq none
  show "\<forall>name \<in> fst ` set (permissions (remove_script_and_permissions E ctx ed w)).
      \<not> prefix (ctx_instance ctx @ ''.'') name"
    by (auto simp: assert_system_is_sane_frame)
  have t2: "trace ?w2 = trace w @ [ScriptRun ?path ?inst]"
    by (simp add: delete_permissions_of_frame t1)
  from eq t2
  show "\<exists>rest. trace (remove_script_and_permissions E ctx ed w)
            = trace w @ ScriptRun ?path ?inst # rest"
    by (auto simp: assert_system_is_sane_frame)
qed

lemma remove_directories_facts:
  "\<not> is_installed (snd (remove_directories ctx message w)) (ctx_instance ctx)"
  "permissions (snd (remove_directories ctx message w)) = permissions w"
  "trace (snd (remove_directories ctx message w)) = trace w"
  by (simp_all add: remove_directories_def Let_def is_installed_def delete_conv')


text \<open>
  The first thing the removal after a failed install records, if it records anything, is
  the call of the remove script.
\<close>

lemma remove_after_failed_install_events:
  "\<exists>evs. trace (snd (remove_after_failed_install E ctx message w)) = trace w @ evs
      \<and> (evs = [] \<or> (\<exists>rest. evs = ScriptRun (ctx_folder ctx @ ''/scripts/remove'')
                                       (ctx_instance ctx) # rest))"
proof (cases "make_environment_for_app_script E (ctx_instance ctx) [] (ctx_folder ctx) w")
  case (Inl e)
  then show ?thesis by (simp add: remove_after_failed_install_def)
next
  case (Inr ed)
  with remove_script_and_permissions_facts(2)[of E ctx ed w] show ?thesis
    by (auto simp: remove_after_failed_install_def remove_directories_facts)
qed

text \<open>What the removal after a failed install records.\<close>

lemma remove_script_and_permissions_trace:
  "trace (remove_script_and_permissions E ctx ed w)
     = trace w @ ScriptRun (ctx_folder ctx @ ''/scripts/remove'') (ctx_instance ctx)
         # (if fst (run_hook E (ctx_folder ctx @ ''/scripts/remove'') (ctx_instance ctx)
                      [ctx_instance ctx] ed w) = HookReturned 0
            then [SanityCheck ''post'' (m_name (ctx_manifest ctx))] else [])"
proof -
  let ?inst = "ctx_instance ctx"
  let ?path = "ctx_folder ctx @ ''/scripts/remove''"
  obtain r w1 where h: "run_hook E ?path ?inst [?inst] ed w = (r, w1)"
    by (cases "run_hook E ?path ?inst [?inst] ed w")
  from run_hook_trace[of E ?path ?inst "[?inst]" ed w] h
  have t1: "trace w1 = trace w @ [ScriptRun ?path ?inst]" by simp
  show ?thesis
  proof (cases r)
    case (HookReturned n)
    with h t1 show ?thesis
      by (simp add: remove_script_and_permissions_def Let_def delete_permissions_of_frame
          assert_system_is_sane_frame)
  next
    case (HookRaised e)
    with h t1 show ?thesis
      by (simp add: remove_script_and_permissions_def Let_def delete_permissions_of_frame)
  qed
qed

lemma remove_after_failed_install_trace:
  "trace (snd (remove_after_failed_install E ctx message w))
     = trace w @
       (case make_environment_for_app_script E (ctx_instance ctx) [] (ctx_folder ctx) w of
          Inl e \<Rightarrow> []
        | Inr ed \<Rightarrow>
            ScriptRun (ctx_folder ctx @ ''/scripts/remove'') (ctx_instance ctx)
              # (if fst (run_hook E (ctx_folder ctx @ ''/scripts/remove'') (ctx_instance ctx)
                           [ctx_instance ctx] ed w) = HookReturned 0
                 then [SanityCheck ''post'' (m_name (ctx_manifest ctx))] else []))"
  by (cases "make_environment_for_app_script E (ctx_instance ctx) [] (ctx_folder ctx) w")
     (simp_all add: remove_after_failed_install_def remove_directories_facts
        remove_script_and_permissions_trace)

section \<open>Install: proofs\<close>

lemma py_str_one: "py_str (Suc 0) = ''1''"
  by code_simp

lemma example_prepare:
  "install_prepare example_env ''bad'' [] [] False example_world
     = (Inr (example_ctx ''bad''), example_prepared ''bad'')"
  "install_prepare example_env ''demo'' [] [] False example_world
     = (Inr (example_ctx ''demo''), example_prepared ''demo'')"
  by (simp_all add: install_prepare_def run_extract_app_def example_env_def example_extract_def example_manifest_def
      example_world_def example_ctx_def example_prepared_def
      check_manifest_requirements_def assert_system_is_sane_for_app_def system_sanity_error_def
      services_to_check_def replace_alias_def service_status_def
      next_instance_number_for_app_def installed_apps_def sibling_app_ids_def first_free.simps
      is_true_def app_instance_name_of_def answers_of_def validate_webpath_requirement_def
      set_app_settings_def is_installed_def permission_create_def
      make_environment_for_app_script_def redact_passwords_def
      parse_app_instance_name_def re_app_instance_name_def match_tail_def at_end_def
      is_appid_char_def is_word_char_def is_digit_def is_nonzero_digit_def py_isdigit_def
      py_int_def digit_val_def py_str_one Let_def)








lemma example_run:
  "run_install_script example_env (example_ctx ''bad'') (example_prepared ''bad'')
     = (ScriptReturned True ''script failed'',
        (example_prepared ''bad'')\<lparr>trace := [SanityCheck ''pre'' ''Demo'',
                                   ScriptRun ''/tmp/app_bad/scripts/install'' ''bad'']\<rparr>)"
  by (simp add: run_install_script_def run_script_debug_def example_env_def example_script_def
      example_ctx_def example_prepared_def)


text \<open>
  Claim C4, as stated: after the install script the health check would always be run.
  The install of \<^verbatim>\<open>bad\<close>, whose script fails, with \<^verbatim>\<open>no_remove_on_failure\<close>: the last thing
  recorded is the call of the install script; no health check follows it.
\<close>

theorem no_health_check_after_failed_install_script:
  "trace (snd (app_install example_env ''bad'' [] [] True False example_world))
     = [SanityCheck ''pre'' ''Demo'', ScriptRun ''/tmp/app_bad/scripts/install'' ''bad'']"
  by (simp add: app_install_def example_prepare(1) example_run install_finish_def
      script_failed_def)

lemma install_finish_events:
  "(take 1 (events_since w (snd (install_finish E ctx nr r w)))
      = [SanityCheck ''post'' (m_name (ctx_manifest ctx))]) \<longleftrightarrow> \<not> script_failed r"
proof (cases "script_failed r")
  case True
  show ?thesis
  proof (cases nr)
    case nr: True
    with True show ?thesis by (simp add: install_finish_def events_since_def)
  next
    case False
    let ?message = "case r of ScriptReturned failed msg \<Rightarrow> Some msg | ScriptRaised e \<Rightarrow> None"
    from remove_after_failed_install_events[of E ctx ?message w] obtain evs where
      evs: "trace (snd (remove_after_failed_install E ctx ?message w)) = trace w @ evs"
        "evs = [] \<or> (\<exists>rest. evs = ScriptRun (ctx_folder ctx @ ''/scripts/remove'')
                                       (ctx_instance ctx) # rest)" by blast
    from True False have "snd (install_finish E ctx nr r w)
        = snd (remove_after_failed_install E ctx ?message w)"
      by (simp add: install_finish_def split: prod.splits)
    with evs True show ?thesis by (auto simp: events_since_def)
  qed
next
  case False
  let ?w1 = "w\<lparr>trace := trace w @ [SanityCheck ''post'' (m_name (ctx_manifest ctx))]\<rparr>"
  have "\<exists>evs. trace (snd (install_finish E ctx nr r w))
          = trace w @ SanityCheck ''post'' (m_name (ctx_manifest ctx)) # evs"
  proof (cases "system_sanity_error (ctx_manifest ctx) ''post'' w")
    case None
    with False show ?thesis
      by (simp add: install_finish_def assert_system_is_sane_for_app_def Let_def)
  next
    case (Some e)
    show ?thesis
    proof (cases nr)
      case True
      with False Some show ?thesis
        by (simp add: install_finish_def assert_system_is_sane_for_app_def)
    next
      case nnr: False
      from remove_after_failed_install_events[of E ctx "Some (error_message e)" ?w1]
      obtain evs where
        "trace (snd (remove_after_failed_install E ctx (Some (error_message e)) ?w1))
           = trace ?w1 @ evs" by blast
      moreover from False Some nnr have "snd (install_finish E ctx nr r w)
          = snd (remove_after_failed_install E ctx (Some (error_message e)) ?w1)"
        by (simp add: install_finish_def assert_system_is_sane_for_app_def split: prod.splits)
      ultimately show ?thesis by simp
    qed
  qed
  with False show ?thesis by (auto simp: events_since_def)
qed

text \<open>
  Claim C4, amended. During install, once the install script was called, the health check
  \<^verbatim>\<open>_assert_system_is_sane_for_app(manifest, "post")\<close> is what happens next exactly when the
  script reported success. When the script failed or the call raised, the check is
  skipped: with \<^verbatim>\<open>no_remove_on_failure\<close> nothing more is done, and otherwise what is done
  next is the removal of the failed install: nothing if the environment of the remove
  script cannot be built, else the remove script, followed by a health check only when
  the remove script returned 0.
\<close>

theorem health_check_follows_successful_install_script:
  assumes "install_prepare E app label args force w = (Inr ctx, w1)"
    and "run_install_script E ctx w1 = (r, w2)"
  shows "((take 1 (events_since w2 (snd (app_install E app label args nr force w)))
            = [SanityCheck ''post'' (m_name (ctx_manifest ctx))]) \<longleftrightarrow> \<not> script_failed r)
       \<and> (script_failed r \<and> nr \<longrightarrow>
            events_since w2 (snd (app_install E app label args nr force w)) = [])
       \<and> (script_failed r \<and> \<not> nr \<longrightarrow>
            events_since w2 (snd (app_install E app label args nr force w))
              = (case make_environment_for_app_script E (ctx_instance ctx) []
                        (ctx_folder ctx) w2 of
                   Inl e \<Rightarrow> []
                 | Inr ed \<Rightarrow>
                     ScriptRun (ctx_folder ctx @ ''/scripts/remove'') (ctx_instance ctx)
                       # (if fst (run_hook E (ctx_folder ctx @ ''/scripts/remove'')
                                    (ctx_instance ctx) [ctx_instance ctx] ed w2)
                               = HookReturned 0
                          then [SanityCheck ''post'' (m_name (ctx_manifest ctx))]
                          else [])))"
proof -
  have unfold: "app_install E app label args n force w = install_finish E ctx n r w2" for n
    using assms by (simp add: app_install_def)
  have kept: "script_failed r \<and> nr \<longrightarrow>
      events_since w2 (snd (install_finish E ctx nr r w2)) = []"
    by (simp add: install_finish_def events_since_def)
  have removed: "script_failed r \<and> \<not> nr \<longrightarrow>
      snd (install_finish E ctx nr r w2)
        = snd (remove_after_failed_install E ctx
                 (case r of ScriptReturned failed msg \<Rightarrow> Some msg | ScriptRaised e \<Rightarrow> None) w2)"
    by (simp add: install_finish_def split_beta)
  from kept removed install_finish_events[of w2 E ctx nr r] show ?thesis
    by (auto simp: unfold events_since_def remove_after_failed_install_trace)
qed

lemma example_run_demo:
  "run_install_script example_env (example_ctx ''demo'') (example_prepared ''demo'')
     = (ScriptReturned False ''script failed'',
        (example_prepared ''demo'')\<lparr>trace := [SanityCheck ''pre'' ''Demo'',
                                   ScriptRun ''/tmp/app_demo/scripts/install'' ''demo'']\<rparr>)"
  by (simp add: run_install_script_def run_script_debug_def example_env_def example_script_def
      example_ctx_def example_prepared_def)

theorem health_check_follows_successful_install_script_witness:
  "take 1 (drop 2 (trace (snd (app_install example_env ''demo'' [] [] False False example_world))))
     = [SanityCheck ''post'' ''Demo'']
   \<and> take 1 (drop 2 (trace (snd (app_install example_env ''bad'' [] [] False False example_world))))
     \<noteq> [SanityCheck ''post'' ''Demo'']
   \<and> drop 2 (trace (snd (app_install example_env ''bad'' [] [] False False example_world)))
     = [ScriptRun ''/tmp/app_bad/scripts/remove'' ''bad'', SanityCheck ''post'' ''Demo'']
   \<and> drop 2 (trace (snd (app_install example_env ''bad'' [] [] True False example_world)))
     = []"
proof -
  have ok: "\<not> script_failed (ScriptReturned False ''script failed'')"
    and ko: "script_failed (ScriptReturned True ''script failed'')"
    by (simp_all add: script_failed_def)
  have env: "make_environment_for_app_script example_env ''bad'' [] ''/tmp/app_bad'' w
      = Inr [(''YNH_APP_ID'', Lit ''bad''),
             (''YNH_APP_INSTANCE_NAME'', Lit ''bad''),
             (''YNH_APP_INSTANCE_NUMBER'', Lit ''1''),
             (''YNH_APP_MANIFEST_VERSION'', Lit ''1.0~ynh1''),
             (''YNH_APP_BASEDIR'', Lit ''/tmp/app_bad'')]" for w
    by (simp add: make_environment_for_app_script_def example_env_def
        parse_app_instance_name_def re_app_instance_name_def match_tail_def
        at_end_def is_appid_char_def is_word_char_def is_digit_def is_nonzero_digit_def
        py_isdigit_def py_int_def digit_val_def py_str_one)
  have hook: "fst (run_hook example_env path a as ed w) = HookReturned 0" for path a as ed w
    by (simp add: run_hook_def example_env_def example_hook_def)
  from health_check_follows_successful_install_script[OF example_prepare(2) example_run_demo,
      of False] ok
    health_check_follows_successful_install_script[OF example_prepare(1) example_run,
      of False] ko
    health_check_follows_successful_install_script[OF example_prepare(1) example_run,
      of True] ko
  show ?thesis
    by (simp add: events_since_def example_ctx_def example_manifest_def numeral_2_eq_2 env hook)
qed

section \<open>Upgrade: proofs\<close>

subsection \<open>What one step leaves alone\<close>


















text \<open>
  A failed upgrade script, or a failed health check after it, makes the upgrade of the
  app raise; nothing but the health check was done after the script.
\<close>

lemma upgrade_finish_failure:
  assumes "script_failed r \<or> system_sanity_error m ''post'' w \<noteq> None"
  shows "fst (upgrade_finish E app m folder r w) \<noteq> Inr ()
       \<and> snd (upgrade_finish E app m folder r w)
           = w\<lparr>trace := trace w @ [SanityCheck ''post'' (m_name m)]\<rparr>"
  using assms by (auto simp: upgrade_finish_def assert_system_is_sane_for_app_def)








subsection \<open>A downgrade\<close>





end
